theory Spec2Isabelle
  imports Complex_Main "HOL-Library.Sublist" "HOL-Library.Log_Nat"
begin

section \<open>The knowledge base of the Mystical House: data model\<close>

text \<open>
  This theory embeds the knowledge-base core of the repository: the types of
  \<^verbatim>\<open>src/types/pkm.ts\<close>, the IndexedDB layer \<^verbatim>\<open>src/lib/pkmStorage.ts\<close> (class
  \<^verbatim>\<open>PKMStorage\<close>) and the store \<^verbatim>\<open>src/game/engine/pkmStore.ts\<close> (\<^verbatim>\<open>usePKMStore\<close>).

  Conventions of the embedding.
  \<^item> A JavaScript \<^verbatim>\<open>number\<close> that the code only uses as a counter, a length or a result
    of \<^verbatim>\<open>Math.floor\<close> is an \<open>int\<close>. The ease factor, the accuracy and the coordinates are
    \<open>rat\<close> and stand for finite doubles: every product, sum and quotient that the code
    takes of them is rounded by \<open>round64\<close>, the rounding of IEEE 754 binary64 (to nearest,
    ties to even, with the subnormal numbers), and a decimal literal of the source is the
    double nearest to it. Binary64 turns a result of magnitude \<open>2^1024 - 2^970\<close> or more
    into an infinity, which the numbers of the model do not include: a statement about
    such a result carries the range \<open>in_double_range\<close> as a hypothesis. Counters and
    instants are added exactly.
  \<^item> A string is a \<open>char list\<close>; a \<open>char\<close> stands for a code unit below 256.
  \<^item> A \<^verbatim>\<open>Date\<close> is its time value in milliseconds. A field declared \<^verbatim>\<open>Date\<close> holds a
    \<open>timestamp\<close>: either a \<^verbatim>\<open>Date\<close> object or the ISO-8601 string that
    \<^verbatim>\<open>JSON.stringify\<close> writes for it, because a snapshot that went through JSON brings the
    string back.
  \<^item> Every \<^verbatim>\<open>async\<close> function runs to completion before the next one starts; an operation
    takes the store and returns the new store. The values an operation draws from its
    environment (the clock, the fresh identifier built from \<^verbatim>\<open>Date.now()\<close> and
    \<^verbatim>\<open>Math.random()\<close>) are parameters; the clock is read as one instant per operation.
  \<^item> The database has been opened (\<^verbatim>\<open>init()\<close> succeeded), so \<^verbatim>\<open>ensureDB\<close> returns it. The
    one storage failure that remains is the \<^verbatim>\<open>ConstraintError\<close> of \<^verbatim>\<open>IDBObjectStore.add\<close>
    on a key that is present.
  \<^item> The quests, the rooms and the flags of the user interface are left out: no operation
    below reads or writes them.
\<close>

datatype KnowledgeDomain =
  Philosophy | Science | Technology | Art | History | Personal | Projects | LearningDomain

datatype NoteType = Concept | Fact | Question | Insight | Task | Reference | Journal

datatype LinkType = Related | Prerequisite | Follows | Contradicts | Expands | References

datatype ReviewStatus = New | Learning | Reviewing | Mastered

datatype Quality = Again | Hard | Good | Easy

datatype timestamp = Date int | IsoString int

record Position =
  pos_x :: rat
  pos_y :: rat
  pos_room :: string

record ReviewData =
  status :: ReviewStatus
  easeFactor :: rat
  interval :: int
  nextReview :: timestamp
  reviewCount :: int
  lastReviewed :: "timestamp option"
  correctStreak :: int
  totalReviews :: int

record NoteMetadata =
  wordCount :: int
  readingTime :: int
  links :: "string list"
  backlinks :: "string list"
  attachments :: "string list"
  importance :: int

record Note =
  note_id :: string
  title :: string
  content :: string
  note_type :: NoteType
  domain :: KnowledgeDomain
  tags :: "string list"
  createdAt :: timestamp
  updatedAt :: timestamp
  position :: Position
  isCollected :: bool
  reviewData :: ReviewData
  metadata :: NoteMetadata

record NoteLink =
  link_id :: string
  sourceId :: string
  targetId :: string
  link_type :: LinkType
  strength :: int
  link_createdAt :: timestamp
  link_context :: "string option"

record Tag =
  tag_id :: string
  name :: string
  color :: string
  description :: "string option"
  noteCount :: int
  tag_createdAt :: timestamp

datatype ActivityType = NoteCreated | NoteReviewed | QuestCompleted | LinkCreated

record ActivityItem =
  act_id :: string
  act_type :: ActivityType
  act_timestamp :: timestamp
  act_description :: string
  points :: "int option"

record PKMStats =
  totalNotes :: int
  collectedNotes :: int
  totalLinks :: int
  reviewStreak :: int
  wisdomPoints :: int
  completedQuests :: int
  averageReviewAccuracy :: rat
  mostProductiveDomain :: KnowledgeDomain
  recentActivity :: "ActivityItem list"

datatype Theme = RetroSnes | Mystical | Scholarly

record PKMSettings =
  autoSave :: bool
  defaultDomain :: KnowledgeDomain
  reviewReminders :: bool
  dailyReviewGoal :: int
  theme :: Theme
  soundEffects :: bool
  showBacklinks :: bool
  autoLinkSimilar :: bool

text \<open>\<^verbatim>\<open>Partial<Note>\<close>, \<^verbatim>\<open>Partial<Tag>\<close> and \<^verbatim>\<open>Partial<PKMStats>\<close>: every key may be absent.\<close>

record NoteUpdates =
  u_id :: "string option"
  u_title :: "string option"
  u_content :: "string option"
  u_type :: "NoteType option"
  u_domain :: "KnowledgeDomain option"
  u_tags :: "string list option"
  u_createdAt :: "timestamp option"
  u_updatedAt :: "timestamp option"
  u_position :: "Position option"
  u_isCollected :: "bool option"
  u_reviewData :: "ReviewData option"
  u_metadata :: "NoteMetadata option"

record TagUpdates =
  tu_id :: "string option"
  tu_name :: "string option"
  tu_color :: "string option"
  tu_description :: "string option"
  tu_noteCount :: "int option"
  tu_createdAt :: "timestamp option"

record StatsUpdates =
  su_totalNotes :: "int option"
  su_collectedNotes :: "int option"
  su_totalLinks :: "int option"
  su_reviewStreak :: "int option"
  su_wisdomPoints :: "int option"
  su_completedQuests :: "int option"
  su_averageReviewAccuracy :: "rat option"
  su_mostProductiveDomain :: "KnowledgeDomain option"
  su_recentActivity :: "ActivityItem list option"

section \<open>Numbers: the rounding of binary64\<close>

text \<open>
  \<open>ilog2 x\<close> is the exponent of a positive rational: \<open>2 powi ilog2 x \<le> x < 2 powi (ilog2 x + 1)\<close>
  (lemma \<open>ilog2_bounds\<close>). \<open>roundTiesToEven\<close> rounds to the nearest integer, a tie to the
  even one. A double has a significand of 53 bits and an exponent of at least \<open>-1074\<close>, so
  \<open>round64 x\<close> rounds \<open>x\<close> to a multiple of \<open>2 powi e\<close> with \<open>e\<close> the larger of
  \<open>ilog2 \<bar>x\<bar> - 52\<close> and \<open>-1074\<close>: it is the result that IEEE 754 gives for an exact
  value \<open>x\<close> within the range of the finite doubles.
\<close>

definition ilog2 :: "rat \<Rightarrow> int" where
  "ilog2 x = (if 1 \<le> x then bitlen \<lfloor>x\<rfloor> - 1 else - bitlen (\<lceil>1 / x\<rceil> - 1))"

definition roundTiesToEven :: "rat \<Rightarrow> int" where
  "roundTiesToEven y =
     (let f = \<lfloor>y\<rfloor>; d = y - of_int f
      in if d < 1 / 2 then f else if 1 / 2 < d then f + 1 else if even f then f else f + 1)"

definition round64 :: "rat \<Rightarrow> rat" where
  "round64 x =
     (if x = 0 then 0
      else (let e = max (ilog2 \<bar>x\<bar> - 52) (- 1074)
            in of_int (roundTiesToEven (x / 2 powi e)) * 2 powi e))"

definition in_double_range :: "rat \<Rightarrow> bool" where
  "in_double_range x = (\<bar>x\<bar> < 2 ^ 1024 - 2 ^ 970)"

text \<open>The constants \<^verbatim>\<open>SPACED_REPETITION\<close> of \<^verbatim>\<open>types/pkm.ts\<close>: the doubles that the
  literals \<^verbatim>\<open>2.5\<close>, \<^verbatim>\<open>1.3\<close>, \<^verbatim>\<open>3.0\<close>, \<^verbatim>\<open>1.3\<close>, \<^verbatim>\<open>1.0\<close>, \<^verbatim>\<open>0.8\<close> and \<^verbatim>\<open>0.5\<close> denote, and
  the two intervals.\<close>

definition INITIAL_EASE :: rat where "INITIAL_EASE = round64 (25 / 10)"
definition MIN_EASE :: rat where "MIN_EASE = round64 (13 / 10)"
definition MAX_EASE :: rat where "MAX_EASE = round64 3"
definition EASY_MULTIPLIER :: rat where "EASY_MULTIPLIER = round64 (13 / 10)"
definition GOOD_MULTIPLIER :: rat where "GOOD_MULTIPLIER = round64 1"
definition HARD_MULTIPLIER :: rat where "HARD_MULTIPLIER = round64 (8 / 10)"
definition AGAIN_MULTIPLIER :: rat where "AGAIN_MULTIPLIER = round64 (5 / 10)"
definition INITIAL_INTERVAL :: int where "INITIAL_INTERVAL = 1"
definition GRADUATING_INTERVAL :: int where "GRADUATING_INTERVAL = 4"


section \<open>Strings of the JavaScript library\<close>

text \<open>
  \<^verbatim>\<open>\s\<close> and \<^verbatim>\<open>trim()\<close> treat as white space, among code units below 256: tab, line feed,
  vertical tab, form feed, carriage return, space and the no-break space.
\<close>

definition isWhiteSpace :: "char \<Rightarrow> bool" where
  "isWhiteSpace c =
     (c = CHR 0x09 \<or> c = CHR 0x0A \<or> c = CHR 0x0B \<or> c = CHR 0x0C \<or> c = CHR 0x0D
      \<or> c = CHR 0x20 \<or> c = CHR 0xA0)"

definition trim :: "string \<Rightarrow> string" where
  "trim s = rev (dropWhile isWhiteSpace (rev (dropWhile isWhiteSpace s)))"

text \<open>\<^verbatim>\<open>toLowerCase()\<close> on code units below 256: A-Z and the capital letters of Latin-1.\<close>

definition toLowerChar :: "char \<Rightarrow> char" where
  "toLowerChar c =
     (let n = (of_char c :: nat)
      in if (65 \<le> n \<and> n \<le> 90) \<or> (192 \<le> n \<and> n \<le> 222 \<and> n \<noteq> 215)
         then char_of (n + 32) else c)"

definition toLowerCase :: "string \<Rightarrow> string" where
  "toLowerCase s = map toLowerChar s"

text \<open>\<^verbatim>\<open>s.split(' ')\<close>: the pieces between the occurrences of one separator character.\<close>

fun split_char :: "char \<Rightarrow> string \<Rightarrow> string list" where
  "split_char sep [] = [[]]"
| "split_char sep (c # cs) =
     (if c = sep then [] # split_char sep cs
      else (case split_char sep cs of [] \<Rightarrow> [[c]] | t # ts \<Rightarrow> (c # t) # ts))"

text \<open>\<^verbatim>\<open>s.split(/\s+/)\<close>: the pieces between the maximal runs of white space.\<close>

function split_ws :: "string \<Rightarrow> string list" where
  "split_ws [] = [[]]"
| "split_ws (c # cs) =
     (if isWhiteSpace c then [] # split_ws (dropWhile isWhiteSpace cs)
      else (case split_ws cs of [] \<Rightarrow> [[c]] | t # ts \<Rightarrow> (c # t) # ts))"
  by pat_completeness auto
termination
  by (relation "measure length") (auto simp: length_dropWhile_le less_Suc_eq_le)

text \<open>\<^verbatim>\<open>xs.join(sep)\<close>.\<close>

fun join :: "string \<Rightarrow> string list \<Rightarrow> string" where
  "join sep [] = []"
| "join sep [x] = x"
| "join sep (x # y # ys) = x @ sep @ join sep (y # ys)"

text \<open>\<^verbatim>\<open>s.includes(t)\<close>: \<open>t\<close> occurs in \<open>s\<close> as a contiguous piece.\<close>

fun str_includes :: "string \<Rightarrow> string \<Rightarrow> bool" where
  "str_includes [] t = (t = [])"
| "str_includes (c # cs) t = (prefix t (c # cs) \<or> str_includes cs t)"

text \<open>The word count of \<^verbatim>\<open>createNote\<close> and \<^verbatim>\<open>updateNote\<close>:
  \<^verbatim>\<open>content.split(/\s+/).filter(word => word.length > 0).length\<close>.\<close>

definition countWords :: "string \<Rightarrow> int" where
  "countWords c = int (length (filter (\<lambda>word. length word > 0) (split_ws c)))"

text \<open>\<^verbatim>\<open>Math.ceil(content.length / 200)\<close>.\<close>

definition estimateReadingTime :: "string \<Rightarrow> int" where
  "estimateReadingTime c = \<lceil>(of_nat (length c) :: rat) / 200\<rceil>"

section \<open>An IndexedDB object store with key path \<open>id\<close>\<close>

text \<open>
  An object store is the list of its records; the key of a record is read from the record
  by \<open>key\<close>. \<^verbatim>\<open>add\<close> fails on a key that is present, \<^verbatim>\<open>put\<close> overwrites or inserts,
  \<^verbatim>\<open>delete\<close> and \<^verbatim>\<open>get\<close> go by key, \<^verbatim>\<open>getAll\<close> on an index returns the records whose
  indexed field has the given value. (IndexedDB returns records in key order; the list keeps
  the order of insertion, and nothing below depends on the order.)
\<close>

datatype error = ConstraintError

definition store_has :: "('v \<Rightarrow> string) \<Rightarrow> string \<Rightarrow> 'v list \<Rightarrow> bool" where
  "store_has key k st = list_ex (\<lambda>w. key w = k) st"

definition store_add :: "('v \<Rightarrow> string) \<Rightarrow> 'v \<Rightarrow> 'v list \<Rightarrow> error + 'v list" where
  "store_add key v st = (if store_has key (key v) st then Inl ConstraintError else Inr (st @ [v]))"

definition store_put :: "('v \<Rightarrow> string) \<Rightarrow> 'v \<Rightarrow> 'v list \<Rightarrow> 'v list" where
  "store_put key v st =
     (if store_has key (key v) st then map (\<lambda>w. if key w = key v then v else w) st
      else st @ [v])"

definition store_delete :: "('v \<Rightarrow> string) \<Rightarrow> string \<Rightarrow> 'v list \<Rightarrow> 'v list" where
  "store_delete key k st = filter (\<lambda>w. key w \<noteq> k) st"

definition store_get :: "('v \<Rightarrow> string) \<Rightarrow> string \<Rightarrow> 'v list \<Rightarrow> 'v option" where
  "store_get key k st = find (\<lambda>w. key w = k) st"

definition index_getAll :: "('v \<Rightarrow> string) \<Rightarrow> string \<Rightarrow> 'v list \<Rightarrow> 'v list" where
  "index_getAll field k st = filter (\<lambda>w. field w = k) st"

text \<open>A loop \<^verbatim>\<open>for (const v of vs) await store.add(v)\<close>: the first failure ends it.\<close>

fun add_each :: "('v \<Rightarrow> string) \<Rightarrow> 'v list \<Rightarrow> 'v list \<Rightarrow> error + 'v list" where
  "add_each key [] st = Inr st"
| "add_each key (v # vs) st =
     (case store_add key v st of Inl e \<Rightarrow> Inl e | Inr st' \<Rightarrow> add_each key vs st')"

text \<open>A loop \<^verbatim>\<open>for (const v of vs) await store.delete(v.id)\<close>.\<close>

fun delete_each :: "('v \<Rightarrow> string) \<Rightarrow> 'v list \<Rightarrow> 'v list \<Rightarrow> 'v list" where
  "delete_each key [] st = st"
| "delete_each key (v # vs) st = delete_each key vs (store_delete key (key v) st)"

section \<open>\<^verbatim>\<open>PKMStorage\<close> (\<^verbatim>\<open>src/lib/pkmStorage.ts\<close>)\<close>

text \<open>The stats and the settings stores hold at most the one record with id \<^verbatim>\<open>main\<close>.\<close>

record PKMStorage =
  db_notes :: "Note list"
  db_links :: "NoteLink list"
  db_tags :: "Tag list"
  db_stats :: "PKMStats option"
  db_settings :: "PKMSettings option"

definition storage_createNote :: "Note \<Rightarrow> PKMStorage \<Rightarrow> error + PKMStorage" where
  "storage_createNote note d =
     (case store_add note_id note (db_notes d) of
        Inl e \<Rightarrow> Inl e
      | Inr st \<Rightarrow> Inr (d\<lparr>db_notes := st\<rparr>))"

definition storage_getNote :: "string \<Rightarrow> PKMStorage \<Rightarrow> Note option" where
  "storage_getNote i d = store_get note_id i (db_notes d)"

definition storage_updateNote :: "Note \<Rightarrow> PKMStorage \<Rightarrow> PKMStorage" where
  "storage_updateNote note d = d\<lparr>db_notes := store_put note_id note (db_notes d)\<rparr>"

definition storage_deleteNote :: "string \<Rightarrow> PKMStorage \<Rightarrow> PKMStorage" where
  "storage_deleteNote i d =
     (let notesStore = store_delete note_id i (db_notes d);
          sourceLinks = index_getAll sourceId i (db_links d);
          linksStore1 = delete_each link_id sourceLinks (db_links d);
          targetLinks = index_getAll targetId i linksStore1;
          linksStore2 = delete_each link_id targetLinks linksStore1
      in d\<lparr>db_notes := notesStore, db_links := linksStore2\<rparr>)"

definition storage_getAllNotes :: "PKMStorage \<Rightarrow> Note list" where
  "storage_getAllNotes d = db_notes d"

definition storage_createLink :: "NoteLink \<Rightarrow> PKMStorage \<Rightarrow> error + PKMStorage" where
  "storage_createLink link d =
     (case store_add link_id link (db_links d) of
        Inl e \<Rightarrow> Inl e
      | Inr st \<Rightarrow> Inr (d\<lparr>db_links := st\<rparr>))"

definition storage_deleteLink :: "string \<Rightarrow> PKMStorage \<Rightarrow> PKMStorage" where
  "storage_deleteLink i d = d\<lparr>db_links := store_delete link_id i (db_links d)\<rparr>"

definition storage_getAllLinks :: "PKMStorage \<Rightarrow> NoteLink list" where
  "storage_getAllLinks d = db_links d"

definition storage_createTag :: "Tag \<Rightarrow> PKMStorage \<Rightarrow> error + PKMStorage" where
  "storage_createTag tag d =
     (case store_add tag_id tag (db_tags d) of
        Inl e \<Rightarrow> Inl e
      | Inr st \<Rightarrow> Inr (d\<lparr>db_tags := st\<rparr>))"

definition storage_getAllTags :: "PKMStorage \<Rightarrow> Tag list" where
  "storage_getAllTags d = db_tags d"

definition storage_updateTag :: "Tag \<Rightarrow> PKMStorage \<Rightarrow> PKMStorage" where
  "storage_updateTag tag d = d\<lparr>db_tags := store_put tag_id tag (db_tags d)\<rparr>"

definition storage_getStats :: "PKMStorage \<Rightarrow> PKMStats option" where
  "storage_getStats d = db_stats d"

definition storage_updateStats :: "PKMStats \<Rightarrow> PKMStorage \<Rightarrow> PKMStorage" where
  "storage_updateStats stats d = d\<lparr>db_stats := Some stats\<rparr>"

definition storage_getSettings :: "PKMStorage \<Rightarrow> PKMSettings option" where
  "storage_getSettings d = db_settings d"

definition storage_updateSettings :: "PKMSettings \<Rightarrow> PKMStorage \<Rightarrow> PKMStorage" where
  "storage_updateSettings settings d = d\<lparr>db_settings := Some settings\<rparr>"

text \<open>\<^verbatim>\<open>searchNotes\<close>: the text of a note that is searched, and the filter.\<close>

definition searchableText :: "Note \<Rightarrow> string" where
  "searchableText note =
     toLowerCase (title note @ '' '' @ content note @ '' '' @ join '' '' (tags note))"

definition searchTerms :: "string \<Rightarrow> string list" where
  "searchTerms query =
     filter (\<lambda>t. length t > 0) (split_char (CHR '' '') (toLowerCase query))"

definition storage_searchNotes :: "string \<Rightarrow> PKMStorage \<Rightarrow> Note list" where
  "storage_searchNotes query d =
     filter (\<lambda>note. list_all (\<lambda>t. str_includes (searchableText note) t) (searchTerms query))
       (storage_getAllNotes d)"


subsection \<open>Snapshots: \<^verbatim>\<open>exportData\<close> and \<^verbatim>\<open>importData\<close>\<close>

text \<open>
  \<^verbatim>\<open>JSON.stringify\<close> writes a \<^verbatim>\<open>Date\<close> through \<^verbatim>\<open>Date.prototype.toJSON\<close>, that is as its
  ISO-8601 string, and \<^verbatim>\<open>JSON.parse\<close> without a reviver returns that string. Numbers,
  strings, booleans, arrays and plain objects come back as they went in. The functions
  \<open>json_*\<close> give, for each type of record, the value that
  \<^verbatim>\<open>JSON.parse(JSON.stringify(v))\<close> returns.
\<close>

fun toJSON :: "timestamp \<Rightarrow> timestamp" where
  "toJSON (Date t) = IsoString t"
| "toJSON (IsoString t) = IsoString t"

definition json_ReviewData :: "ReviewData \<Rightarrow> ReviewData" where
  "json_ReviewData r =
     r\<lparr>nextReview := toJSON (nextReview r), lastReviewed := map_option toJSON (lastReviewed r)\<rparr>"

definition json_Note :: "Note \<Rightarrow> Note" where
  "json_Note n =
     n\<lparr>createdAt := toJSON (createdAt n), updatedAt := toJSON (updatedAt n),
       reviewData := json_ReviewData (reviewData n)\<rparr>"

definition json_NoteLink :: "NoteLink \<Rightarrow> NoteLink" where
  "json_NoteLink l = l\<lparr>link_createdAt := toJSON (link_createdAt l)\<rparr>"

definition json_Tag :: "Tag \<Rightarrow> Tag" where
  "json_Tag t = t\<lparr>tag_createdAt := toJSON (tag_createdAt t)\<rparr>"

definition json_ActivityItem :: "ActivityItem \<Rightarrow> ActivityItem" where
  "json_ActivityItem a = a\<lparr>act_timestamp := toJSON (act_timestamp a)\<rparr>"

definition json_PKMStats :: "PKMStats \<Rightarrow> PKMStats" where
  "json_PKMStats st = st\<lparr>recentActivity := map json_ActivityItem (recentActivity st)\<rparr>"

text \<open>
  The snapshot document: the JSON text that \<^verbatim>\<open>exportData\<close> returns and \<^verbatim>\<open>importData\<close>
  takes, given as the value that \<^verbatim>\<open>JSON.parse\<close> reads from it.
\<close>

record ExportData =
  version :: string
  ex_timestamp :: timestamp
  ex_notes :: "Note list"
  ex_links :: "NoteLink list"
  ex_tags :: "Tag list"
  ex_stats :: "PKMStats option"
  ex_settings :: "PKMSettings option"

definition storage_exportData :: "int \<Rightarrow> PKMStorage \<Rightarrow> ExportData" where
  "storage_exportData now d =
     \<lparr>version = ''1.0'',
      ex_timestamp = IsoString now,
      ex_notes = map json_Note (storage_getAllNotes d),
      ex_links = map json_NoteLink (storage_getAllLinks d),
      ex_tags = map json_Tag (storage_getAllTags d),
      ex_stats = map_option json_PKMStats (storage_getStats d),
      ex_settings = storage_getSettings d\<rparr>"

definition clearAllData :: "PKMStorage \<Rightarrow> PKMStorage" where
  "clearAllData d =
     d\<lparr>db_notes := [], db_links := [], db_tags := [], db_stats := None, db_settings := None\<rparr>"

text \<open>
  \<^verbatim>\<open>importData\<close> clears the stores in one transaction and inserts in a second one. A failing
  \<^verbatim>\<open>add\<close> rejects the promise and aborts the second transaction, which leaves the cleared
  stores; the result is the error, if any, with the database after the call.
\<close>

definition storage_importData :: "ExportData \<Rightarrow> PKMStorage \<Rightarrow> error option \<times> PKMStorage" where
  "storage_importData data d =
     (let cleared = clearAllData d
      in case add_each note_id (ex_notes data) (db_notes cleared) of
           Inl e \<Rightarrow> (Some e, cleared)
         | Inr notesStore \<Rightarrow>
        (case add_each link_id (ex_links data) (db_links cleared) of
           Inl e \<Rightarrow> (Some e, cleared)
         | Inr linksStore \<Rightarrow>
        (case add_each tag_id (ex_tags data) (db_tags cleared) of
           Inl e \<Rightarrow> (Some e, cleared)
         | Inr tagsStore \<Rightarrow>
             (None,
              cleared\<lparr>db_notes := notesStore, db_links := linksStore, db_tags := tagsStore,
                db_stats := (case ex_stats data of Some st \<Rightarrow> Some st | None \<Rightarrow> db_stats cleared),
                db_settings :=
                  (case ex_settings data of Some st \<Rightarrow> Some st | None \<Rightarrow> db_settings cleared)\<rparr>))))"

section \<open>The store \<^verbatim>\<open>usePKMStore\<close> (\<^verbatim>\<open>src/game/engine/pkmStore.ts\<close>)\<close>

text \<open>
  The state of the store, together with the database \<open>db\<close> behind the singleton
  \<^verbatim>\<open>pkmStorage\<close> that every action writes through to. The field \<^verbatim>\<open>stats\<close> is never
  \<^verbatim>\<open>null\<close>: it starts as \<^verbatim>\<open>defaultStats\<close> and \<^verbatim>\<open>initializePKM\<close> stores
  \<^verbatim>\<open>stats || defaultStats\<close>.
\<close>

record PKMStore =
  st_notes :: "Note list"
  st_links :: "NoteLink list"
  st_tags :: "Tag list"
  st_stats :: PKMStats
  st_settings :: "PKMSettings option"
  currentRoom :: "string option"
  searchQuery :: string
  searchResults :: "Note list"
  db :: PKMStorage

definition defaultSettings :: PKMSettings where
  "defaultSettings =
     \<lparr>autoSave = True, defaultDomain = Personal, reviewReminders = True, dailyReviewGoal = 10,
      theme = RetroSnes, soundEffects = True, showBacklinks = True, autoLinkSimilar = False\<rparr>"

definition defaultStats :: PKMStats where
  "defaultStats =
     \<lparr>totalNotes = 0, collectedNotes = 0, totalLinks = 0, reviewStreak = 0, wisdomPoints = 0,
      completedQuests = 0, averageReviewAccuracy = 0, mostProductiveDomain = Personal,
      recentActivity = []\<rparr>"

text \<open>The object spread \<^verbatim>\<open>{ ...a, ...updates }\<close>: a key of \<open>updates\<close> that is present wins.\<close>

fun override :: "'a \<Rightarrow> 'a option \<Rightarrow> 'a" where
  "override a None = a"
| "override a (Some b) = b"

text \<open>\<^verbatim>\<open>s || d\<close> on an optional string: the empty string is falsy, like a missing one.\<close>

fun or_string :: "string option \<Rightarrow> string \<Rightarrow> string" where
  "or_string None d = d"
| "or_string (Some s) d = (if s = [] then d else s)"

definition spread_Note :: "Note \<Rightarrow> NoteUpdates \<Rightarrow> Note" where
  "spread_Note n u =
     \<lparr>note_id = override (note_id n) (u_id u),
      title = override (title n) (u_title u),
      content = override (content n) (u_content u),
      note_type = override (note_type n) (u_type u),
      domain = override (domain n) (u_domain u),
      tags = override (tags n) (u_tags u),
      createdAt = override (createdAt n) (u_createdAt u),
      updatedAt = override (updatedAt n) (u_updatedAt u),
      position = override (position n) (u_position u),
      isCollected = override (isCollected n) (u_isCollected u),
      reviewData = override (reviewData n) (u_reviewData u),
      metadata = override (metadata n) (u_metadata u)\<rparr>"

definition spread_Tag :: "Tag \<Rightarrow> TagUpdates \<Rightarrow> Tag" where
  "spread_Tag t u =
     \<lparr>tag_id = override (tag_id t) (tu_id u),
      name = override (name t) (tu_name u),
      color = override (color t) (tu_color u),
      description = (case tu_description u of None \<Rightarrow> description t | Some x \<Rightarrow> Some x),
      noteCount = override (noteCount t) (tu_noteCount u),
      tag_createdAt = override (tag_createdAt t) (tu_createdAt u)\<rparr>"

definition spread_PKMStats :: "PKMStats \<Rightarrow> StatsUpdates \<Rightarrow> PKMStats" where
  "spread_PKMStats st u =
     \<lparr>totalNotes = override (totalNotes st) (su_totalNotes u),
      collectedNotes = override (collectedNotes st) (su_collectedNotes u),
      totalLinks = override (totalLinks st) (su_totalLinks u),
      reviewStreak = override (reviewStreak st) (su_reviewStreak u),
      wisdomPoints = override (wisdomPoints st) (su_wisdomPoints u),
      completedQuests = override (completedQuests st) (su_completedQuests u),
      averageReviewAccuracy = override (averageReviewAccuracy st) (su_averageReviewAccuracy u),
      mostProductiveDomain = override (mostProductiveDomain st) (su_mostProductiveDomain u),
      recentActivity = override (recentActivity st) (su_recentActivity u)\<rparr>"

text \<open>The empty object \<^verbatim>\<open>{}\<close> as a \<^verbatim>\<open>Partial<Note>\<close>.\<close>

definition no_updates :: NoteUpdates where
  "no_updates =
     \<lparr>u_id = None, u_title = None, u_content = None, u_type = None, u_domain = None,
      u_tags = None, u_createdAt = None, u_updatedAt = None, u_position = None,
      u_isCollected = None, u_reviewData = None, u_metadata = None\<rparr>"

text \<open>A complete \<^verbatim>\<open>PKMStats\<close> object passed where a \<^verbatim>\<open>Partial<PKMStats>\<close> is expected.\<close>

definition all_of_stats :: "PKMStats \<Rightarrow> StatsUpdates" where
  "all_of_stats st =
     \<lparr>su_totalNotes = Some (totalNotes st),
      su_collectedNotes = Some (collectedNotes st),
      su_totalLinks = Some (totalLinks st),
      su_reviewStreak = Some (reviewStreak st),
      su_wisdomPoints = Some (wisdomPoints st),
      su_completedQuests = Some (completedQuests st),
      su_averageReviewAccuracy = Some (averageReviewAccuracy st),
      su_mostProductiveDomain = Some (mostProductiveDomain st),
      su_recentActivity = Some (recentActivity st)\<rparr>"

definition updateStats :: "StatsUpdates \<Rightarrow> PKMStore \<Rightarrow> PKMStore" where
  "updateStats updates s =
     (let newStats = spread_PKMStats (st_stats s) updates
      in s\<lparr>db := storage_updateStats newStats (db s), st_stats := newStats\<rparr>)"

subsection \<open>Notes\<close>

text \<open>
  \<^verbatim>\<open>createNote\<close>. The parameters \<open>newId\<close>, \<open>rx\<close>, \<open>ry\<close> and \<open>activityId\<close> are the
  identifier, the two values of \<^verbatim>\<open>Math.random()\<close> and the identifier of the activity entry
  that the code builds from \<^verbatim>\<open>Date.now()\<close> and \<^verbatim>\<open>Math.random()\<close>. When
  \<^verbatim>\<open>pkmStorage.createNote\<close> rejects, the exception leaves the action before any \<^verbatim>\<open>set\<close>.
\<close>

definition createNote ::
  "NoteUpdates \<Rightarrow> string \<Rightarrow> int \<Rightarrow> rat \<Rightarrow> rat \<Rightarrow> string \<Rightarrow> PKMStore \<Rightarrow> error + PKMStore" where
  "createNote noteData newId now rx ry activityId s =
     (let settings = (case st_settings s of None \<Rightarrow> defaultSettings | Some x \<Rightarrow> x);
          newNote =
            \<lparr>note_id = newId,
             title = or_string (u_title noteData) ''Untitled Note'',
             content = or_string (u_content noteData) [],
             note_type = override Concept (u_type noteData),
             domain = override (defaultDomain settings) (u_domain noteData),
             tags = override [] (u_tags noteData),
             createdAt = Date now,
             updatedAt = Date now,
             position =
               override
                 \<lparr>pos_x = round64 (rx * 600), pos_y = round64 (ry * 350),
                  pos_room = or_string (currentRoom s) ''main_hall''\<rparr>
                 (u_position noteData),
             isCollected = override False (u_isCollected noteData),
             reviewData =
               \<lparr>status = New,
                easeFactor = INITIAL_EASE,
                interval = INITIAL_INTERVAL,
                nextReview = Date (now + INITIAL_INTERVAL * 24 * 60 * 60 * 1000),
                reviewCount = 0,
                lastReviewed = None,
                correctStreak = 0,
                totalReviews = 0\<rparr>,
             metadata =
               \<lparr>wordCount = countWords (or_string (u_content noteData) []),
                readingTime = estimateReadingTime (or_string (u_content noteData) []),
                links = [],
                backlinks = [],
                attachments = [],
                importance = 3\<rparr>\<rparr>
      in case storage_createNote newNote (db s) of
           Inl e \<Rightarrow> Inl e
         | Inr d \<Rightarrow>
             (let s1 = s\<lparr>db := d, st_notes := st_notes s @ [newNote]\<rparr>;
                  updatedStats =
                    (st_stats s1)
                      \<lparr>totalNotes := totalNotes (st_stats s1) + 1,
                       recentActivity :=
                         \<lparr>act_id = activityId, act_type = NoteCreated, act_timestamp = Date now,
                          act_description = ''Created note: '' @ title newNote,
                          points = Some 10\<rparr>
                         # take 9 (recentActivity (st_stats s1))\<rparr>
              in Inr (updateStats (all_of_stats updatedStats) s1)))"

text \<open>
  \<^verbatim>\<open>updateNote\<close>. In the object literal the key \<^verbatim>\<open>metadata\<close> is written after
  \<^verbatim>\<open>...updates\<close>, from the metadata of the stored note, so it replaces a \<^verbatim>\<open>metadata\<close> key of
  \<open>updates\<close>. The test \<^verbatim>\<open>updates.content ?\<close> holds for a string that is present and not
  empty.
\<close>

definition truthy :: "string option \<Rightarrow> bool" where
  "truthy x = (case x of None \<Rightarrow> False | Some c \<Rightarrow> c \<noteq> [])"

definition updatedNote :: "Note \<Rightarrow> NoteUpdates \<Rightarrow> int \<Rightarrow> Note" where
  "updatedNote old updates now =
     (spread_Note old updates)
       \<lparr>updatedAt := Date now,
        metadata :=
          (metadata old)
            \<lparr>wordCount :=
               (if truthy (u_content updates) then countWords (the (u_content updates))
                else wordCount (metadata old)),
             readingTime :=
               (if truthy (u_content updates) then estimateReadingTime (the (u_content updates))
                else readingTime (metadata old))\<rparr>\<rparr>"

definition updateNote :: "string \<Rightarrow> NoteUpdates \<Rightarrow> int \<Rightarrow> PKMStore \<Rightarrow> PKMStore" where
  "updateNote i updates now s =
     (case find (\<lambda>note. note_id note = i) (st_notes s) of
        None \<Rightarrow> s
      | Some old \<Rightarrow>
          (let new = updatedNote old updates now
           in s\<lparr>db := storage_updateNote new (db s),
                st_notes := map (\<lambda>note. if note_id note = i then new else note) (st_notes s)\<rparr>))"

definition deleteNote :: "string \<Rightarrow> PKMStore \<Rightarrow> PKMStore" where
  "deleteNote i s =
     (let s1 = s\<lparr>db := storage_deleteNote i (db s),
                 st_notes := filter (\<lambda>note. note_id note \<noteq> i) (st_notes s),
                 st_links :=
                   filter (\<lambda>link. sourceId link \<noteq> i \<and> targetId link \<noteq> i) (st_links s)\<rparr>;
          updatedStats = (st_stats s1)\<lparr>totalNotes := max 0 (totalNotes (st_stats s1) - 1)\<rparr>
      in updateStats (all_of_stats updatedStats) s1)"

definition collectNote :: "string \<Rightarrow> PKMStore \<Rightarrow> PKMStore" where
  "collectNote i s =
     (case find (\<lambda>n. note_id n = i) (st_notes s) of
        None \<Rightarrow> s
      | Some note \<Rightarrow>
          if isCollected note then s
          else
            (let new = note\<lparr>isCollected := True\<rparr>;
                 s1 = s\<lparr>db := storage_updateNote new (db s),
                        st_notes := map (\<lambda>n. if note_id n = i then new else n) (st_notes s)\<rparr>;
                 updatedStats =
                   (st_stats s1)
                     \<lparr>collectedNotes := collectedNotes (st_stats s1) + 1,
                      wisdomPoints := wisdomPoints (st_stats s1) + 5\<rparr>
             in updateStats (all_of_stats updatedStats) s1))"

subsection \<open>Search\<close>

definition searchNotes :: "string \<Rightarrow> PKMStore \<Rightarrow> PKMStore" where
  "searchNotes query s =
     (if trim query = [] then s\<lparr>searchQuery := [], searchResults := []\<rparr>
      else s\<lparr>searchQuery := query, searchResults := storage_searchNotes query (db s)\<rparr>)"

subsection \<open>Links\<close>

text \<open>
  \<^verbatim>\<open>createLink\<close> reads both notes from the state after the link has been stored and before
  the first \<^verbatim>\<open>updateNote\<close>; \<^verbatim>\<open>deleteLink\<close> reads them from the state at its entry.
\<close>

definition createLink ::
  "string \<Rightarrow> string \<Rightarrow> LinkType \<Rightarrow> string option \<Rightarrow> string \<Rightarrow> int \<Rightarrow> PKMStore
     \<Rightarrow> error + PKMStore" where
  "createLink src tgt ty ctx newId now s =
     (let newLink =
            \<lparr>link_id = newId, sourceId = src, targetId = tgt, link_type = ty, strength = 5,
             link_createdAt = Date now, link_context = ctx\<rparr>
      in case storage_createLink newLink (db s) of
           Inl e \<Rightarrow> Inl e
         | Inr d \<Rightarrow>
             (let s1 = s\<lparr>db := d, st_links := st_links s @ [newLink]\<rparr>;
                  sourceNote = find (\<lambda>n. note_id n = src) (st_notes s1);
                  targetNote = find (\<lambda>n. note_id n = tgt) (st_notes s1);
                  s2 = (case sourceNote of
                          None \<Rightarrow> s1
                        | Some sn \<Rightarrow>
                            updateNote src
                              (no_updates
                                 \<lparr>u_metadata :=
                                    Some ((metadata sn)
                                      \<lparr>links :=
                                         filter (\<lambda>l. l \<noteq> tgt) (links (metadata sn)) @ [tgt]\<rparr>)\<rparr>)
                              now s1);
                  s3 = (case targetNote of
                          None \<Rightarrow> s2
                        | Some tn \<Rightarrow>
                            updateNote tgt
                              (no_updates
                                 \<lparr>u_metadata :=
                                    Some ((metadata tn)
                                      \<lparr>backlinks :=
                                         filter (\<lambda>l. l \<noteq> src) (backlinks (metadata tn))
                                         @ [src]\<rparr>)\<rparr>)
                              now s2);
                  updatedStats = (st_stats s3)\<lparr>totalLinks := totalLinks (st_stats s3) + 1\<rparr>
              in Inr (updateStats (all_of_stats updatedStats) s3)))"

definition deleteLink :: "string \<Rightarrow> int \<Rightarrow> PKMStore \<Rightarrow> PKMStore" where
  "deleteLink i now s =
     (case find (\<lambda>l. link_id l = i) (st_links s) of
        None \<Rightarrow> s
      | Some link \<Rightarrow>
          (let s1 = s\<lparr>db := storage_deleteLink i (db s),
                      st_links := filter (\<lambda>l. link_id l \<noteq> i) (st_links s)\<rparr>;
               sourceNote = find (\<lambda>n. note_id n = sourceId link) (st_notes s);
               targetNote = find (\<lambda>n. note_id n = targetId link) (st_notes s);
               s2 = (case sourceNote of
                       None \<Rightarrow> s1
                     | Some sn \<Rightarrow>
                         updateNote (sourceId link)
                           (no_updates
                              \<lparr>u_metadata :=
                                 Some ((metadata sn)
                                   \<lparr>links :=
                                      filter (\<lambda>l. l \<noteq> targetId link) (links (metadata sn))\<rparr>)\<rparr>)
                           now s1);
               s3 = (case targetNote of
                       None \<Rightarrow> s2
                     | Some tn \<Rightarrow>
                         updateNote (targetId link)
                           (no_updates
                              \<lparr>u_metadata :=
                                 Some ((metadata tn)
                                   \<lparr>backlinks :=
                                      filter (\<lambda>l. l \<noteq> sourceId link)
                                        (backlinks (metadata tn))\<rparr>)\<rparr>)
                           now s2);
               updatedStats =
                 (st_stats s3)\<lparr>totalLinks := max 0 (totalLinks (st_stats s3) - 1)\<rparr>
           in updateStats (all_of_stats updatedStats) s3))"

subsection \<open>Tags\<close>

definition createTag :: "string \<Rightarrow> string \<Rightarrow> string \<Rightarrow> int \<Rightarrow> PKMStore \<Rightarrow> error + PKMStore" where
  "createTag nm col newId now s =
     (let newTag =
            \<lparr>tag_id = newId, name = nm, color = col, description = Some [], noteCount = 0,
             tag_createdAt = Date now\<rparr>
      in case storage_createTag newTag (db s) of
           Inl e \<Rightarrow> Inl e
         | Inr d \<Rightarrow> Inr (s\<lparr>db := d, st_tags := st_tags s @ [newTag]\<rparr>))"

definition updateTag :: "string \<Rightarrow> TagUpdates \<Rightarrow> PKMStore \<Rightarrow> PKMStore" where
  "updateTag i updates s =
     (case find (\<lambda>tag. tag_id tag = i) (st_tags s) of
        None \<Rightarrow> s
      | Some old \<Rightarrow>
          (let updatedTag = spread_Tag old updates
           in s\<lparr>db := storage_updateTag updatedTag (db s),
                st_tags := map (\<lambda>tag. if tag_id tag = i then updatedTag else tag) (st_tags s)\<rparr>))"

subsection \<open>Spaced repetition\<close>

text \<open>The \<^verbatim>\<open>switch\<close> of \<^verbatim>\<open>reviewNote\<close>, the status and the record it builds. The products
  are taken from left to right, each rounded; \<^verbatim>\<open>Math.floor\<close>, \<^verbatim>\<open>Math.max\<close> and \<^verbatim>\<open>Math.min\<close>
  are exact.\<close>

definition newEaseFactor :: "Quality \<Rightarrow> ReviewData \<Rightarrow> rat" where
  "newEaseFactor quality rd =
     (case quality of
        Again \<Rightarrow> max MIN_EASE (round64 (easeFactor rd * AGAIN_MULTIPLIER))
      | Hard \<Rightarrow> max MIN_EASE (round64 (easeFactor rd * HARD_MULTIPLIER))
      | Good \<Rightarrow> easeFactor rd
      | Easy \<Rightarrow> min MAX_EASE (round64 (easeFactor rd * EASY_MULTIPLIER)))"

definition newInterval :: "Quality \<Rightarrow> ReviewData \<Rightarrow> int" where
  "newInterval quality rd =
     (case quality of
        Again \<Rightarrow> INITIAL_INTERVAL
      | Hard \<Rightarrow> max 1 \<lfloor>round64 (of_int (interval rd) * HARD_MULTIPLIER)\<rfloor>
      | Good \<Rightarrow>
          max GRADUATING_INTERVAL
            \<lfloor>round64 (round64 (of_int (interval rd) * GOOD_MULTIPLIER) * easeFactor rd)\<rfloor>
      | Easy \<Rightarrow>
          \<lfloor>round64 (round64 (of_int (interval rd) * EASY_MULTIPLIER) * easeFactor rd)\<rfloor>)"

definition newStatus :: "Quality \<Rightarrow> ReviewData \<Rightarrow> ReviewStatus" where
  "newStatus quality rd =
     (if quality = Again then Learning
      else if reviewCount rd \<ge> 20 then Mastered
      else Reviewing)"

definition updatedReviewData :: "Quality \<Rightarrow> int \<Rightarrow> ReviewData \<Rightarrow> ReviewData" where
  "updatedReviewData quality now rd =
     \<lparr>status = newStatus quality rd,
      easeFactor = newEaseFactor quality rd,
      interval = newInterval quality rd,
      nextReview = Date (now + newInterval quality rd * 24 * 60 * 60 * 1000),
      reviewCount = reviewCount rd + 1,
      lastReviewed = Some (Date now),
      correctStreak = (if quality = Again then 0 else correctStreak rd + 1),
      totalReviews = totalReviews rd + 1\<rparr>"

definition accuracy :: "Quality \<Rightarrow> rat" where
  "accuracy quality =
     (if quality = Again then 0 else if quality = Hard then round64 (5 / 10)
      else if quality = Good then round64 (8 / 10) else 1)"

definition reviewPoints :: "Quality \<Rightarrow> int" where
  "reviewPoints quality =
     (if quality = Easy then 15 else if quality = Good then 10
      else if quality = Hard then 5 else 2)"

definition reviewNote :: "string \<Rightarrow> Quality \<Rightarrow> int \<Rightarrow> string \<Rightarrow> PKMStore \<Rightarrow> PKMStore" where
  "reviewNote i quality now activityId s =
     (case find (\<lambda>n. note_id n = i) (st_notes s) of
        None \<Rightarrow> s
      | Some note \<Rightarrow>
          (let s1 = updateNote i
                      (no_updates
                         \<lparr>u_reviewData := Some (updatedReviewData quality now (reviewData note))\<rparr>)
                      now s;
               reviewed =
                 int (length (filter (\<lambda>a. act_type a = NoteReviewed)
                                (recentActivity (st_stats s1))));
               updatedStats =
                 (st_stats s1)
                   \<lparr>averageReviewAccuracy :=
                      round64
                        (round64
                           (round64 (averageReviewAccuracy (st_stats s1) * of_int reviewed)
                            + accuracy quality)
                         / of_int (reviewed + 1)),
                    recentActivity :=
                      \<lparr>act_id = activityId, act_type = NoteReviewed, act_timestamp = Date now,
                       act_description = ''Reviewed note: '' @ title note,
                       points = Some (reviewPoints quality)\<rparr>
                      # take 9 (recentActivity (st_stats s1))\<rparr>
           in updateStats (all_of_stats updatedStats) s1))"

section \<open>Sequences of reviews, the search of the specification, example stores\<close>

text \<open>A finite sequence of \<^verbatim>\<open>reviewNote\<close> calls, each with its id, quality, instant and
  activity identifier.\<close>

fun reviewNotes :: "(string \<times> Quality \<times> int \<times> string) list \<Rightarrow> PKMStore \<Rightarrow> PKMStore" where
  "reviewNotes [] s = s"
| "reviewNotes ((i, quality, now, activityId) # rs) s =
     reviewNotes rs (reviewNote i quality now activityId s)"

text \<open>The search as claim C6 words it: the terms are the pieces between white space.\<close>

definition spec_searchTerms :: "string \<Rightarrow> string list" where
  "spec_searchTerms query = filter (\<lambda>t. t \<noteq> []) (map toLowerCase (split_ws query))"

definition spec_search :: "string \<Rightarrow> Note list \<Rightarrow> Note list" where
  "spec_search query notes =
     (if list_all isWhiteSpace query then []
      else filter (\<lambda>note. list_all (\<lambda>t. str_includes (searchableText note) t)
                            (spec_searchTerms query)) notes)"

text \<open>The initial state of the store, with empty object stores behind it.\<close>

definition initialStore :: PKMStore where
  "initialStore =
     \<lparr>st_notes = [], st_links = [], st_tags = [], st_stats = defaultStats,
      st_settings = Some defaultSettings, currentRoom = Some ''main_hall'',
      searchQuery = [], searchResults = [],
      db = \<lparr>db_notes = [], db_links = [], db_tags = [], db_stats = None, db_settings = None\<rparr>\<rparr>"

text \<open>
  Example data: \<open>example_note i t c\<close> is the note that \<^verbatim>\<open>createNote\<close> builds at instant 0 for
  the id \<open>i\<close>, the title \<open>t\<close> and the content \<open>c\<close>; \<open>example_reviewed e i\<close> is a note under
  review with ease factor \<open>e\<close> and interval \<open>i\<close>; \<open>example_store ns ls\<close> holds the notes
  \<open>ns\<close> and the links \<open>ls\<close> in the state and in the database, with the two counters set to
  their numbers; \<open>tab_query\<close> is the query \<open>a\<close>, tab, \<open>b\<close>; \<open>link_view\<close> shows the id, the
  links and the backlinks of a note.
\<close>

definition example_note :: "string \<Rightarrow> string \<Rightarrow> string \<Rightarrow> Note" where
  "example_note i t c =
     \<lparr>note_id = i, title = t, content = c, note_type = Concept, domain = Personal, tags = [],
      createdAt = Date 0, updatedAt = Date 0,
      position = \<lparr>pos_x = 0, pos_y = 0, pos_room = ''main_hall''\<rparr>,
      isCollected = False,
      reviewData =
        \<lparr>status = New, easeFactor = INITIAL_EASE, interval = INITIAL_INTERVAL,
         nextReview = Date 86400000, reviewCount = 0, lastReviewed = None, correctStreak = 0,
         totalReviews = 0\<rparr>,
      metadata =
        \<lparr>wordCount = countWords c, readingTime = estimateReadingTime c, links = [],
         backlinks = [], attachments = [], importance = 3\<rparr>\<rparr>"

definition example_reviewed :: "rat \<Rightarrow> int \<Rightarrow> Note" where
  "example_reviewed e i =
     (example_note ''n1'' ''T'' ''c'')
       \<lparr>reviewData := (reviewData (example_note ''n1'' ''T'' ''c''))
          \<lparr>status := Reviewing, easeFactor := e, interval := i\<rparr>\<rparr>"

definition example_link :: "string \<Rightarrow> string \<Rightarrow> string \<Rightarrow> NoteLink" where
  "example_link i src tgt =
     \<lparr>link_id = i, sourceId = src, targetId = tgt, link_type = Related, strength = 5,
      link_createdAt = Date 0, link_context = None\<rparr>"

definition example_store :: "Note list \<Rightarrow> NoteLink list \<Rightarrow> PKMStore" where
  "example_store ns ls =
     initialStore
       \<lparr>st_notes := ns, st_links := ls,
        st_stats := defaultStats\<lparr>totalNotes := int (length ns), totalLinks := int (length ls)\<rparr>,
        db := \<lparr>db_notes = ns, db_links = ls, db_tags = [],
               db_stats = Some (defaultStats\<lparr>totalNotes := int (length ns), totalLinks := int (length ls)\<rparr>),
               db_settings = None\<rparr>\<rparr>"

definition tab_query :: string where
  "tab_query = [CHR ''a'', CHR 0x09, CHR ''b'']"

definition link_view :: "Note \<Rightarrow> string \<times> string list \<times> string list" where
  "link_view n = (note_id n, links (metadata n), backlinks (metadata n))"

text \<open>The stores of the examples below.\<close>

definition one_note :: PKMStore where
  "one_note = example_store [example_note ''n1'' ''T'' ''c''] []"

definition reviewed_note :: PKMStore where
  "reviewed_note = example_store [example_reviewed (25 / 10) 10] []"

definition two_notes :: PKMStore where
  "two_notes =
     example_store [example_note ''a'' ''A'' ''alpha'', example_note ''b'' ''B'' ''beta''] []"

definition linked_notes :: PKMStore where
  "linked_notes =
     example_store
       [example_note ''a'' ''A'' ''alpha'', example_note ''b'' ''B'' ''beta'',
        example_note ''c'' ''C'' ''gamma'']
       [example_link ''l1'' ''a'' ''b'', example_link ''l2'' ''a'' ''c'']"

definition hello_world :: PKMStore where
  "hello_world = example_store [example_note ''a'' ''A'' ''hello world''] []"

definition alpha_note :: PKMStore where
  "alpha_note = example_store [example_note ''a'' ''A'' ''alpha''] []"

definition two_topics :: PKMStore where
  "two_topics =
     example_store
       [example_note ''n1'' ''Quantum Mechanics'' ''particles and waves'',
        example_note ''n2'' ''Cooking'' ''pasta waves''] []"

definition a_and_b :: PKMStore where
  "a_and_b = example_store [example_note ''n1'' ''a'' ''b''] []"

section \<open>Auxiliary facts\<close>

subsection \<open>Numbers\<close>

text \<open>
  The exponent that \<open>ilog2\<close> finds is the right one, \<open>roundTiesToEven\<close> is off by a half at
  most, and so \<open>round64\<close> has the relative error \<open>2^-53\<close> of binary64 on the normal numbers.
  The values of the constants, and the value that the rounding gives after 26 easy reviews
  of a new note (ease factor 3, interval 1640662374926624), where the exact product has
  the floor 6398583262213833.
\<close>

lemma roundTiesToEven_error: "\<bar>of_int (roundTiesToEven y) - y\<bar> \<le> 1 / 2"
proof -
  have "of_int \<lfloor>y\<rfloor> \<le> y" and "y < of_int \<lfloor>y\<rfloor> + 1"
    by linarith+
  then show ?thesis
    by (auto simp: roundTiesToEven_def Let_def abs_le_iff)
qed

lemma ilog2_bounds:
  assumes "0 < x"
  shows "2 powi (ilog2 x) \<le> x" and "x < 2 powi (ilog2 x + 1)"
proof -
  have "2 powi (ilog2 x) \<le> x \<and> x < 2 powi (ilog2 x + 1)"
  proof (cases "1 \<le> x")
    case True
    define n where "n = \<lfloor>x\<rfloor>"
    have n: "0 < n" "of_int n \<le> x" "x < of_int n + 1"
      using True by (auto simp: n_def) linarith+
    have b: "1 \<le> bitlen n"
      using n(1) bitlen_nonneg [of n] bitlen_eq_zero_iff [of n] by linarith
    from bitlen_bounds [OF n(1)] have lo: "2 ^ nat (bitlen n - 1) \<le> n" and hi: "n + 1 \<le> 2 ^ nat (bitlen n)"
      by auto
    have "(2::rat) powi (bitlen n - 1) = of_int (2 ^ nat (bitlen n - 1))"
      using b by (simp add: power_int_def)
    also have "\<dots> \<le> of_int n"
      using lo by (simp only: of_int_le_iff)
    finally have 1: "(2::rat) powi (bitlen n - 1) \<le> x"
      using n(2) by linarith
    have "x < of_int (n + 1)"
      using n(3) by simp
    also have "\<dots> \<le> of_int (2 ^ nat (bitlen n))"
      using hi by (simp only: of_int_le_iff)
    also have "\<dots> = (2::rat) powi (bitlen n)"
      using b by (simp add: power_int_def)
    finally have 2: "x < (2::rat) powi (bitlen n - 1 + 1)"
      by simp
    show ?thesis
      using True 1 2 by (simp add: ilog2_def n_def)
  next
    case False
    define y where "y = 1 / x"
    define m where "m = \<lceil>y\<rceil> - 1"
    have y: "1 < y" "x = 1 / y" "0 < y"
      using False assms by (auto simp: y_def)
    have m: "0 < m" "of_int m < y" "y \<le> of_int m + 1"
      using y(1) by (auto simp: m_def) linarith+
    have b: "1 \<le> bitlen m"
      using m(1) bitlen_nonneg [of m] bitlen_eq_zero_iff [of m] by linarith
    from bitlen_bounds [OF m(1)] have lo: "2 ^ nat (bitlen m - 1) \<le> m" and hi: "m + 1 \<le> 2 ^ nat (bitlen m)"
      by auto
    have "y \<le> of_int (m + 1)"
      using m(3) by simp
    also have "\<dots> \<le> of_int (2 ^ nat (bitlen m))"
      using hi by (simp only: of_int_le_iff)
    finally have yhi: "y \<le> 2 ^ nat (bitlen m)"
      by simp
    have "(2::rat) ^ nat (bitlen m - 1) = of_int (2 ^ nat (bitlen m - 1))"
      by simp
    also have "\<dots> \<le> of_int m"
      using lo by (simp only: of_int_le_iff)
    finally have ylo: "2 ^ nat (bitlen m - 1) < y"
      using m(2) by linarith
    have 1: "(2::rat) powi (- bitlen m) \<le> x"
    proof -
      have "(2::rat) powi (- bitlen m) = 1 / 2 ^ nat (bitlen m)"
        using b by (simp add: power_int_def field_simps)
      also have "\<dots> \<le> 1 / y"
        using yhi y(3) by (simp add: frac_le)
      finally show ?thesis
        using y(2) by simp
    qed
    have 2: "x < (2::rat) powi (- bitlen m + 1)"
    proof -
      have "x = 1 / y"
        by (rule y(2))
      also have "\<dots> < 1 / 2 ^ nat (bitlen m - 1)"
        using ylo by (simp add: frac_less2)
      also have "\<dots> = (2::rat) powi (- bitlen m + 1)"
        using b by (simp add: power_int_def field_simps nat_diff_distrib)
      finally show ?thesis .
    qed
    show ?thesis
      using False 1 2 by (simp add: ilog2_def m_def y_def)
  qed
  then show "2 powi (ilog2 x) \<le> x" and "x < 2 powi (ilog2 x + 1)"
    by simp_all
qed


lemma round64_error:
  assumes "2 powi (- 1022) \<le> x"
  shows "\<bar>round64 x - x\<bar> \<le> x / 2 ^ 53"
proof -
  have p: "(0::rat) < 2 powi (- 1022)"
    by simp
  with assms have x: "0 < x"
    by linarith
  define k where "k = ilog2 x"
  have lo: "2 powi k \<le> x" and hi: "x < 2 powi (k + 1)"
    using ilog2_bounds [OF x] by (simp_all add: k_def)
  have k: "- 1022 \<le> k"
  proof (rule ccontr)
    assume "\<not> - 1022 \<le> k"
    then have "k + 1 \<le> - 1022"
      by simp
    then have "(2::rat) powi (k + 1) \<le> 2 powi (- 1022)"
      by (rule power_int_increasing) simp
    with hi assms show False
      by linarith
  qed
  define e where "e = k - 52"
  have e: "max (ilog2 \<bar>x\<bar> - 52) (- 1074) = e"
    using k x by (simp add: e_def k_def)
  have pe: "(0::rat) < 2 powi e"
    by simp
  have r: "round64 x = of_int (roundTiesToEven (x / 2 powi e)) * 2 powi e"
    using x e by (simp add: round64_def Let_def)
  have "\<bar>round64 x - x\<bar> = \<bar>of_int (roundTiesToEven (x / 2 powi e)) - x / 2 powi e\<bar> * 2 powi e"
  proof -
    have "round64 x - x = (of_int (roundTiesToEven (x / 2 powi e)) - x / 2 powi e) * 2 powi e"
      using pe by (simp add: r field_simps)
    then show ?thesis
      using pe by (simp add: abs_mult)
  qed
  also have "\<dots> \<le> (1 / 2) * 2 powi e"
    using roundTiesToEven_error [of "x / 2 powi e"] pe by (simp add: mult_right_mono)
  also have "\<dots> = 2 powi k / 2 ^ 53"
  proof -
    have "(2::rat) powi e = 2 powi k / 2 powi 52"
      unfolding e_def by (rule power_int_diff) simp
    then show ?thesis
      by simp
  qed
  also have "\<dots> \<le> x / 2 ^ 53"
    using lo by (simp add: divide_right_mono)
  finally show ?thesis .
qed

lemma round64_bounds:
  assumes "1 / 2 \<le> x"
  shows "x - x / 2 ^ 53 \<le> round64 x" and "round64 x \<le> x + x / 2 ^ 53"
proof -
  have "(2::rat) powi (- 1022) \<le> 2 powi (- 1)"
    by (rule power_int_increasing) simp_all
  also have "\<dots> = 1 / 2"
    by (simp add: power_int_minus_divide)
  finally have "2 powi (- 1022) \<le> x"
    using assms by linarith
  from round64_error [OF this]
  have "round64 x - x \<le> x / 2 ^ 53" and "- (round64 x - x) \<le> x / 2 ^ 53"
    unfolding abs_le_iff by blast+
  then show "x - x / 2 ^ 53 \<le> round64 x" and "round64 x \<le> x + x / 2 ^ 53"
    by linarith+
qed

lemma in_double_range_small:
  assumes "\<bar>x\<bar> \<le> 1000"
  shows "in_double_range x"
proof -
  have a: "(2::rat) ^ 1024 = 2 ^ 970 * 2 ^ 54"
    by (simp only: power_add [symmetric]) simp
  have b: "(2::rat) ^ 10 \<le> 2 ^ 970"
    by (rule power_increasing) simp_all
  have c: "(2::rat) \<le> 2 ^ 54"
    using power_increasing [of 1 54 "2::rat"] by simp
  have "(2::rat) ^ 970 * 2 \<le> 2 ^ 970 * 2 ^ 54"
    using c by (intro mult_left_mono) simp_all
  then have "(2::rat) ^ 970 \<le> 2 ^ 1024 - 2 ^ 970"
    unfolding a by linarith
  moreover have "(1000::rat) < 2 ^ 10"
    by simp
  ultimately have "(1000::rat) < 2 ^ 1024 - 2 ^ 970"
    using b by linarith
  with assms show ?thesis
    unfolding in_double_range_def by linarith
qed

lemma round64_zero [simp]: "round64 0 = 0"
  by (simp add: round64_def)

lemma SPACED_REPETITION_values:
  "INITIAL_EASE = 5 / 2"
  "MIN_EASE = 5854679515581645 / 4503599627370496"
  "MAX_EASE = 3"
  "EASY_MULTIPLIER = 5854679515581645 / 4503599627370496"
  "GOOD_MULTIPLIER = 1"
  "HARD_MULTIPLIER = 3602879701896397 / 4503599627370496"
  "AGAIN_MULTIPLIER = 1 / 2"
  "INITIAL_INTERVAL = 1"
  "GRADUATING_INTERVAL = 4"
  by code_simp+

lemma round64_literals:
  "round64 (13 / 10) = 5854679515581645 / 4503599627370496"
  "round64 (8 / 10) = 3602879701896397 / 4503599627370496"
  "round64 (5 / 10) = 1 / 2"
  by code_simp+

lemma round64_large_interval:
  "\<lfloor>round64 (round64 (1640662374926624 * round64 (13 / 10)) * 3)\<rfloor> = 6398583262213834"
  "\<lfloor>(1640662374926624 :: rat) * (13 / 10) * 3\<rfloor> = 6398583262213833"
  by code_simp+

subsection \<open>Lists and object stores\<close>

lemma find_replace:
  "P u \<Longrightarrow> find P (map (\<lambda>n. if P n then u else n) xs) = map_option (\<lambda>_. u) (find P xs)"
  by (induction xs) auto

lemma find_key_other:
  "k \<noteq> j \<Longrightarrow> key u = j \<Longrightarrow>
   find (\<lambda>n. key n = k) (map (\<lambda>n. if key n = j then u else n) xs) = find (\<lambda>n. key n = k) xs"
  by (induction xs) auto

lemma find_snoc:
  "find P (xs @ [v]) = (case find P xs of None \<Rightarrow> (if P v then Some v else None) | Some x \<Rightarrow> Some x)"
  by (induction xs) auto

lemma find_None_list_ex: "find P xs = None \<longleftrightarrow> \<not> list_ex P xs"
  by (induction xs) auto

lemma find_Some_key: "find (\<lambda>n. key n = k) xs = Some v \<Longrightarrow> key v = k"
  by (induction xs) (auto split: if_splits)

lemma store_get_put_same:
  "store_get key (key v) (store_put key v st) = Some v"
proof (cases "store_has key (key v) st")
  case True
  then have "find (\<lambda>w. key w = key v) st \<noteq> None"
    by (simp add: store_has_def find_None_list_ex)
  then show ?thesis
    using True by (auto simp: store_get_def store_put_def find_replace)
next
  case False
  then have "find (\<lambda>w. key w = key v) st = None"
    by (simp add: store_has_def find_None_list_ex)
  then show ?thesis
    using False by (simp add: store_get_def store_put_def find_snoc)
qed

lemma store_get_put_other:
  "key v \<noteq> k \<Longrightarrow> store_get key k (store_put key v st) = store_get key k st"
  by (cases "find (\<lambda>w. key w = k) st")
     (simp_all add: store_get_def store_put_def find_key_other find_snoc)

lemma delete_each_filter:
  "delete_each key vs st = filter (\<lambda>w. key w \<notin> set (map key vs)) st"
  by (induction vs arbitrary: st) (auto simp: store_delete_def intro: filter_cong)

lemma add_each_distinct:
  "distinct (map key (st @ vs)) \<Longrightarrow> add_each key vs st = Inr (st @ vs)"
proof (induction vs arbitrary: st)
  case Nil
  then show ?case by simp
next
  case (Cons v vs)
  have "\<not> store_has key (key v) st"
  proof
    assume "store_has key (key v) st"
    then obtain w where "w \<in> set st" and "key w = key v"
      by (auto simp: store_has_def list_ex_iff)
    then have "key v \<in> key ` set st"
      by (metis imageI)
    with Cons.prems show False
      by auto
  qed
  moreover from Cons.prems have "distinct (map key ((st @ [v]) @ vs))"
    by simp
  ultimately show ?case
    using Cons.IH [of "st @ [v]"] by (simp add: store_add_def)
qed

subsection \<open>Abbreviations for unfolding\<close>

lemmas store_defs =
  store_has_def store_add_def store_put_def store_delete_def store_get_def index_getAll_def

lemmas storage_defs =
  storage_createNote_def storage_getNote_def storage_updateNote_def storage_deleteNote_def
  storage_getAllNotes_def storage_createLink_def storage_deleteLink_def storage_getAllLinks_def
  storage_createTag_def storage_getAllTags_def storage_updateTag_def storage_getStats_def
  storage_updateStats_def

lemmas example_defs =
  one_note_def reviewed_note_def two_notes_def linked_notes_def hello_world_def alpha_note_def
  two_topics_def a_and_b_def example_store_def initialStore_def example_note_def
  example_link_def example_reviewed_def defaultStats_def defaultSettings_def

subsection \<open>The statistics\<close>

text \<open>
  An action that writes the statistics back leaves the collections alone.
\<close>

lemma spread_all_of_stats: "spread_PKMStats st (all_of_stats st') = st'"
  by (simp add: spread_PKMStats_def all_of_stats_def)

lemma updateStats_notes [simp]:
  "st_notes (updateStats u s) = st_notes s"
  "st_links (updateStats u s) = st_links s"
  "st_tags (updateStats u s) = st_tags s"
  "db_notes (db (updateStats u s)) = db_notes (db s)"
  "db_links (db (updateStats u s)) = db_links (db s)"
  "db_tags (db (updateStats u s)) = db_tags (db s)"
  by (simp_all add: updateStats_def Let_def storage_updateStats_def)

lemma updateStats_all [simp]:
  "st_stats (updateStats (all_of_stats st) s) = st"
  "db_stats (db (updateStats (all_of_stats st) s)) = Some st"
  by (simp_all add: updateStats_def Let_def storage_updateStats_def spread_all_of_stats)

subsection \<open>\<^verbatim>\<open>updateNote\<close>\<close>

text \<open>
  The note that \<^verbatim>\<open>updateNote\<close> stores is found under the same id afterwards, in the state and in
  the database; the other notes stay. Its \<open>metadata\<close> comes from the stored note: the key
  \<open>metadata\<close> of the updates has no effect, and the lists of links and backlinks never
  change.
\<close>

lemma no_updates_u_id [simp]:
  "u_id no_updates = None"
  "u_id (no_updates\<lparr>u_reviewData := r\<rparr>) = None"
  "u_id (no_updates\<lparr>u_metadata := m\<rparr>) = None"
  by (simp_all add: no_updates_def)

lemma updatedNote_id: "u_id updates = None \<Longrightarrow> note_id (updatedNote old updates now) = note_id old"
  by (simp add: updatedNote_def spread_Note_def)

lemma updatedNote_keeps_links:
  "links (metadata (updatedNote old updates now)) = links (metadata old)"
  "backlinks (metadata (updatedNote old updates now)) = backlinks (metadata old)"
  by (simp_all add: updatedNote_def)

lemma updatedNote_ignores_metadata:
  "updatedNote old (updates\<lparr>u_metadata := m\<rparr>) now = updatedNote old updates now"
  by (simp add: updatedNote_def spread_Note_def)

lemma updatedNote_review:
  "updatedNote old (no_updates\<lparr>u_reviewData := Some rd\<rparr>) now =
     old\<lparr>updatedAt := Date now, reviewData := rd\<rparr>"
  by (simp add: updatedNote_def spread_Note_def no_updates_def truthy_def)

lemma updateNote_find_same:
  assumes "find (\<lambda>n. note_id n = i) (st_notes s) = Some old" and "u_id updates = None"
  shows "find (\<lambda>n. note_id n = i) (st_notes (updateNote i updates now s)) = Some (updatedNote old updates now)"
    and "storage_getNote i (db (updateNote i updates now s)) = Some (updatedNote old updates now)"
    and "st_stats (updateNote i updates now s) = st_stats s"
proof -
  have k: "note_id old = i" using assms(1) by (rule find_Some_key)
  have k': "note_id (updatedNote old updates now) = i" using k assms(2) by (simp add: updatedNote_id)
  show "find (\<lambda>n. note_id n = i) (st_notes (updateNote i updates now s)) = Some (updatedNote old updates now)"
    using assms(1) k' by (simp add: updateNote_def Let_def find_replace)
  show "storage_getNote i (db (updateNote i updates now s)) = Some (updatedNote old updates now)"
    using assms(1) k' by (simp add: updateNote_def Let_def storage_getNote_def storage_updateNote_def store_get_put_same [of note_id "updatedNote old updates now", unfolded k'])
  show "st_stats (updateNote i updates now s) = st_stats s"
    using assms(1) by (simp add: updateNote_def Let_def)
qed

lemma updateNote_find_other:
  assumes "i \<noteq> j" and "u_id updates = None"
  shows "find (\<lambda>n. note_id n = i) (st_notes (updateNote j updates now s)) =
         find (\<lambda>n. note_id n = i) (st_notes s)"
proof (cases "find (\<lambda>n. note_id n = j) (st_notes s)")
  case None
  then show ?thesis by (simp add: updateNote_def)
next
  case (Some old)
  then have "note_id old = j"
    by (rule find_Some_key)
  then have "note_id (updatedNote old updates now) = j"
    using assms(2) by (simp add: updatedNote_id)
  then show ?thesis
    using Some assms(1) by (simp add: updateNote_def Let_def find_key_other)
qed

lemma updateNote_getNote_other:
  assumes "i \<noteq> j" and "u_id updates = None"
  shows "storage_getNote i (db (updateNote j updates now s)) = storage_getNote i (db s)"
proof (cases "find (\<lambda>n. note_id n = j) (st_notes s)")
  case None
  then show ?thesis by (simp add: updateNote_def)
next
  case (Some old)
  then have "note_id old = j"
    by (rule find_Some_key)
  then have "note_id (updatedNote old updates now) \<noteq> i"
    using assms by (simp add: updatedNote_id)
  then show ?thesis
    using Some
    by (simp add: updateNote_def Let_def storage_getNote_def storage_updateNote_def
        store_get_put_other)
qed

lemma updateNote_keeps_links:
  assumes "u_id updates = None"
  shows "map_option (\<lambda>n. (links (metadata n), backlinks (metadata n)))
           (find (\<lambda>n. note_id n = k) (st_notes (updateNote i updates now s))) =
         map_option (\<lambda>n. (links (metadata n), backlinks (metadata n)))
           (find (\<lambda>n. note_id n = k) (st_notes s))"
proof (cases "k = i")
  case True
  show ?thesis
  proof (cases "find (\<lambda>n. note_id n = i) (st_notes s)")
    case None
    then show ?thesis by (simp add: updateNote_def True)
  next
    case (Some old)
    show ?thesis
      by (simp add: True updateNote_find_same(1) [OF Some assms] Some updatedNote_keeps_links)
  qed
next
  case False
  then show ?thesis
    by (simp add: updateNote_find_other [OF False assms])
qed

lemma updateNote_wordCount:
  assumes "find (\<lambda>n. note_id n = i) (st_notes s) = Some old"
    and "u_id updates = None" and "u_content updates = Some c" and "c \<noteq> []"
  shows "map_option (\<lambda>n. (content n, wordCount (metadata n)))
           (find (\<lambda>n. note_id n = i) (st_notes (updateNote i updates now s))) =
         Some (c, countWords c)"
  by (simp add: updateNote_find_same(1) [OF assms(1,2)] updatedNote_def spread_Note_def
      truthy_def assms(3,4))

subsection \<open>Links\<close>

text \<open>
  Hence \<^verbatim>\<open>createLink\<close> and \<^verbatim>\<open>deleteLink\<close> leave the links and backlinks of every note as they were.
\<close>

lemma createLink_keeps_links:
  assumes "createLink src tgt ty ctx newId now s = Inr s'"
  shows "map_option (\<lambda>n. (links (metadata n), backlinks (metadata n)))
           (find (\<lambda>n. note_id n = k) (st_notes s')) =
         map_option (\<lambda>n. (links (metadata n), backlinks (metadata n)))
           (find (\<lambda>n. note_id n = k) (st_notes s))"
  using assms
  by (auto simp: createLink_def Let_def updateNote_keeps_links
      split: sum.splits option.splits)

lemma deleteLink_keeps_links:
  "map_option (\<lambda>n. (links (metadata n), backlinks (metadata n)))
     (find (\<lambda>n. note_id n = k) (st_notes (deleteLink i now s))) =
   map_option (\<lambda>n. (links (metadata n), backlinks (metadata n)))
     (find (\<lambda>n. note_id n = k) (st_notes s))"
  by (auto simp: deleteLink_def Let_def updateNote_keeps_links split: option.splits)

subsection \<open>Reviews\<close>

lemma reviewNote_find_same:
  assumes "find (\<lambda>n. note_id n = i) (st_notes s) = Some note"
  shows "find (\<lambda>n. note_id n = i) (st_notes (reviewNote i quality now a s)) =
           Some (note\<lparr>updatedAt := Date now,
                   reviewData := updatedReviewData quality now (reviewData note)\<rparr>)"
    and "storage_getNote i (db (reviewNote i quality now a s)) =
           Some (note\<lparr>updatedAt := Date now,
                   reviewData := updatedReviewData quality now (reviewData note)\<rparr>)"
proof -
  let ?u = "no_updates\<lparr>u_reviewData := Some (updatedReviewData quality now (reviewData note))\<rparr>"
  have u: "u_id ?u = None" by simp
  note f = updateNote_find_same(1,2) [OF assms u, of now]
  show "find (\<lambda>n. note_id n = i) (st_notes (reviewNote i quality now a s)) =
           Some (note\<lparr>updatedAt := Date now,
                   reviewData := updatedReviewData quality now (reviewData note)\<rparr>)"
    using assms f(1) by (simp add: reviewNote_def Let_def updatedNote_review)
  show "storage_getNote i (db (reviewNote i quality now a s)) =
           Some (note\<lparr>updatedAt := Date now,
                   reviewData := updatedReviewData quality now (reviewData note)\<rparr>)"
    using assms f(2) by (simp add: reviewNote_def Let_def updatedNote_review storage_getNote_def)
qed

lemma reviewNote_find_other:
  "i \<noteq> j \<Longrightarrow> find (\<lambda>n. note_id n = i) (st_notes (reviewNote j quality now a s)) =
         find (\<lambda>n. note_id n = i) (st_notes s)"
  by (cases "find (\<lambda>n. note_id n = j) (st_notes s)")
     (simp_all add: reviewNote_def Let_def updateNote_find_other)

lemma reviewNote_getNote_other:
  "i \<noteq> j \<Longrightarrow> storage_getNote i (db (reviewNote j quality now a s)) = storage_getNote i (db s)"
  using updateNote_getNote_other [of i j]
  by (cases "find (\<lambda>n. note_id n = j) (st_notes s)")
     (simp_all add: reviewNote_def Let_def storage_getNote_def)

lemma reviewNotes_snoc:
  "reviewNotes (rs @ [(i, quality, now, a)]) s = reviewNote i quality now a (reviewNotes rs s)"
  by (induction rs s rule: reviewNotes.induct) auto

lemma newEaseFactor_bounds:
  assumes "MIN_EASE \<le> easeFactor rd" and "easeFactor rd \<le> MAX_EASE"
  shows "MIN_EASE \<le> newEaseFactor quality rd \<and> newEaseFactor quality rd \<le> MAX_EASE"
proof -
  let ?e = "easeFactor rd"
  have e: "5854679515581645 / 4503599627370496 \<le> ?e" "?e \<le> 3"
    using assms by (simp_all add: SPACED_REPETITION_values)
  show ?thesis
  proof (cases quality)
    case Again
    define x where "x = ?e * (1 / 2)"
    have x: "1 / 2 \<le> x" "x \<le> 3 / 2"
      using e by (simp_all add: x_def)
    from round64_bounds(2) [OF x(1)] x have "round64 x \<le> 3"
      by simp
    then show ?thesis
      using e by (simp add: Again newEaseFactor_def SPACED_REPETITION_values x_def)
  next
    case Hard
    define x where "x = ?e * (3602879701896397 / 4503599627370496)"
    have x: "1 / 2 \<le> x" "x \<le> 5 / 2"
      using e by (simp_all add: x_def)
    from round64_bounds(2) [OF x(1)] x have "round64 x \<le> 3"
      by simp
    then show ?thesis
      using e by (simp add: Hard newEaseFactor_def SPACED_REPETITION_values x_def)
  next
    case Good
    then show ?thesis
      using assms by (simp add: newEaseFactor_def)
  next
    case Easy
    define x where "x = ?e * (5854679515581645 / 4503599627370496)"
    have x: "1 / 2 \<le> x" "3 / 2 \<le> x"
      using e by (simp_all add: x_def)
    from round64_bounds(1) [OF x(1)] x
    have "5854679515581645 / 4503599627370496 \<le> round64 x"
      by simp
    then show ?thesis
      by (simp add: Easy newEaseFactor_def SPACED_REPETITION_values x_def)
  qed
qed

lemma reviewNotes_count:
  assumes "find (\<lambda>n. note_id n = i) (st_notes s) = Some nt"
    and "list_all (\<lambda>r. fst r = i) rs"
  shows "\<exists>nt'. find (\<lambda>n. note_id n = i) (st_notes (reviewNotes rs s)) = Some nt'
           \<and> reviewCount (reviewData nt') = reviewCount (reviewData nt) + int (length rs)"
  using assms(2)
proof (induction rs rule: rev_induct)
  case Nil
  then show ?case using assms(1) by simp
next
  case (snoc r rs)
  obtain j quality now a where r: "r = (j, quality, now, a)"
    by (cases r) auto
  from snoc.prems r have j: "j = i" and rs: "list_all (\<lambda>r. fst r = i) rs"
    by auto
  from snoc.IH [OF rs] obtain nt' where
    n: "find (\<lambda>n. note_id n = i) (st_notes (reviewNotes rs s)) = Some nt'"
    and c: "reviewCount (reviewData nt') = reviewCount (reviewData nt) + int (length rs)"
    by blast
  show ?case
    using reviewNote_find_same(1) [OF n, of quality now a] c
    by (simp add: r j reviewNotes_snoc updatedReviewData_def)
qed

lemma reviewNotes_good_run:
  assumes "find (\<lambda>n. note_id n = i) (st_notes s) = Some nt"
    and "list_all (\<lambda>r. fst r = i \<and> fst (snd r) \<noteq> Again) rs"
    and "rs \<noteq> []"
  shows "map_option
           (\<lambda>n. (status (reviewData n), reviewCount (reviewData n), correctStreak (reviewData n)))
           (find (\<lambda>n. note_id n = i) (st_notes (reviewNotes rs s))) =
         Some (if 21 \<le> reviewCount (reviewData nt) + int (length rs) then Mastered else Reviewing,
               reviewCount (reviewData nt) + int (length rs),
               correctStreak (reviewData nt) + int (length rs))"
  using assms(2,3)
proof (induction rs rule: rev_induct)
  case Nil
  then show ?case by simp
next
  case (snoc r rs)
  obtain j quality now a where r: "r = (j, quality, now, a)"
    by (cases r) auto
  from snoc.prems r have j: "j = i" and q: "quality \<noteq> Again"
    and rs: "list_all (\<lambda>r. fst r = i \<and> fst (snd r) \<noteq> Again) rs"
    by auto
  show ?case
  proof (cases "rs = []")
    case True
    show ?thesis
      using reviewNote_find_same(1) [OF assms(1), of quality now a] q
      by (simp add: True r j updatedReviewData_def newStatus_def)
  next
    case False
    from snoc.IH [OF rs False] obtain nt' where
      n: "find (\<lambda>n. note_id n = i) (st_notes (reviewNotes rs s)) = Some nt'"
      and c: "reviewCount (reviewData nt') = reviewCount (reviewData nt) + int (length rs)"
      and k: "correctStreak (reviewData nt') = correctStreak (reviewData nt) + int (length rs)"
      by auto
    show ?thesis
      using reviewNote_find_same(1) [OF n, of quality now a] q c k
      by (simp add: r j reviewNotes_snoc updatedReviewData_def newStatus_def)
  qed
qed

lemma reviewNotes_again_run:
  assumes "find (\<lambda>n. note_id n = i) (st_notes s) = Some nt"
    and "list_all (\<lambda>r. fst r = i \<and> fst (snd r) = Again) rs"
    and "rs \<noteq> []"
  shows "map_option
           (\<lambda>n. (status (reviewData n), reviewCount (reviewData n), correctStreak (reviewData n)))
           (find (\<lambda>n. note_id n = i) (st_notes (reviewNotes rs s))) =
         Some (Learning, reviewCount (reviewData nt) + int (length rs), 0)"
  using assms(2,3)
proof (induction rs rule: rev_induct)
  case Nil
  then show ?case by simp
next
  case (snoc r rs)
  obtain j quality now a where r: "r = (j, quality, now, a)"
    by (cases r) auto
  from snoc.prems r have j: "j = i" and q: "quality = Again"
    and rs: "list_all (\<lambda>r. fst r = i \<and> fst (snd r) = Again) rs"
    by auto
  show ?case
  proof (cases "rs = []")
    case True
    show ?thesis
      using reviewNote_find_same(1) [OF assms(1), of quality now a] q
      by (simp add: True r j updatedReviewData_def newStatus_def)
  next
    case False
    from snoc.IH [OF rs False] obtain nt' where
      n: "find (\<lambda>n. note_id n = i) (st_notes (reviewNotes rs s)) = Some nt'"
      and c: "reviewCount (reviewData nt') = reviewCount (reviewData nt) + int (length rs)"
      by auto
    show ?thesis
      using reviewNote_find_same(1) [OF n, of quality now a] q c
      by (simp add: r j reviewNotes_snoc updatedReviewData_def newStatus_def)
  qed
qed

lemma reviewNotes_ease:
  assumes "find (\<lambda>n. note_id n = i) (st_notes s) = Some nt"
    and "MIN_EASE \<le> easeFactor (reviewData nt)"
    and "easeFactor (reviewData nt) \<le> MAX_EASE"
  shows "\<exists>nt'. find (\<lambda>n. note_id n = i) (st_notes (reviewNotes rs s)) = Some nt'
           \<and> MIN_EASE \<le> easeFactor (reviewData nt')
           \<and> easeFactor (reviewData nt') \<le> MAX_EASE"
  using assms
proof (induction rs arbitrary: s nt)
  case Nil
  then show ?case by simp
next
  case (Cons r rs)
  obtain j quality now a where r: "r = (j, quality, now, a)"
    by (cases r) auto
  show ?case
  proof (cases "j = i")
    case True
    let ?n = "nt\<lparr>updatedAt := Date now,
                   reviewData := updatedReviewData quality now (reviewData nt)\<rparr>"
    have b: "MIN_EASE \<le> easeFactor (reviewData ?n) \<and> easeFactor (reviewData ?n) \<le> MAX_EASE"
      using newEaseFactor_bounds [OF Cons.prems(2,3), of quality]
      by (simp add: updatedReviewData_def)
    show ?thesis
      using Cons.IH [OF reviewNote_find_same(1) [OF Cons.prems(1), of quality now a]
          conjunct1 [OF b] conjunct2 [OF b]]
      by (simp add: r True)
  next
    case False
    then have ne: "i \<noteq> j" by simp
    show ?thesis
      using Cons.IH [of "reviewNote j quality now a s" nt] Cons.prems
      by (simp add: r reviewNote_find_other [OF ne])
  qed
qed

lemma reviewNotes_getNote:
  assumes "find (\<lambda>n. note_id n = i) (st_notes s) = Some nt"
    and "storage_getNote i (db s) = Some nt"
  shows "storage_getNote i (db (reviewNotes rs s)) =
         find (\<lambda>n. note_id n = i) (st_notes (reviewNotes rs s))"
  using assms
proof (induction rs arbitrary: s nt)
  case Nil
  then show ?case by simp
next
  case (Cons r rs)
  obtain j quality now a where r: "r = (j, quality, now, a)"
    by (cases r) auto
  show ?case
  proof (cases "j = i")
    case True
    show ?thesis
      using Cons.IH [OF reviewNote_find_same [OF Cons.prems(1), of quality now a]]
      by (simp add: r True)
  next
    case False
    then have ne: "i \<noteq> j" by simp
    show ?thesis
      using Cons.IH [of "reviewNote j quality now a s" nt] Cons.prems
      by (simp add: r reviewNote_find_other [OF ne] reviewNote_getNote_other [OF ne])
  qed
qed

subsection \<open>Collecting\<close>

lemma collectNote_first:
  assumes "find (\<lambda>n. note_id n = i) (st_notes s) = Some n" and "\<not> isCollected n"
  shows "find (\<lambda>n. note_id n = i) (st_notes (collectNote i s)) = Some (n\<lparr>isCollected := True\<rparr>)"
    and "storage_getNote i (db (collectNote i s)) = Some (n\<lparr>isCollected := True\<rparr>)"
    and "collectedNotes (st_stats (collectNote i s)) = collectedNotes (st_stats s) + 1"
    and "wisdomPoints (st_stats (collectNote i s)) = wisdomPoints (st_stats s) + 5"
proof -
  have k: "note_id n = i" using assms(1) by (rule find_Some_key)
  then have k': "note_id (n\<lparr>isCollected := True\<rparr>) = i" by simp
  show "find (\<lambda>n. note_id n = i) (st_notes (collectNote i s)) = Some (n\<lparr>isCollected := True\<rparr>)"
    using assms k' by (simp add: collectNote_def Let_def find_replace)
  show "storage_getNote i (db (collectNote i s)) = Some (n\<lparr>isCollected := True\<rparr>)"
    using assms store_get_put_same [of note_id "n\<lparr>isCollected := True\<rparr>" "db_notes (db s)"] k
    by (simp add: collectNote_def Let_def storage_getNote_def storage_updateNote_def)
  show "collectedNotes (st_stats (collectNote i s)) = collectedNotes (st_stats s) + 1"
    using assms by (simp add: collectNote_def Let_def)
  show "wisdomPoints (st_stats (collectNote i s)) = wisdomPoints (st_stats s) + 5"
    using assms by (simp add: collectNote_def Let_def)
qed

subsection \<open>Missing ids and deletion\<close>

text \<open>
  The actions with a guard return the store unchanged on an id that is not stored.
  \<^verbatim>\<open>deleteNote\<close> removes the note and every link from or to it, in the state and in the
  database; of the statistics it changes \<open>totalNotes\<close> only.
\<close>

lemma missing_id_noops:
  "find (\<lambda>n. note_id n = i) (st_notes s) = None \<Longrightarrow> updateNote i updates now s = s"
  "find (\<lambda>t. tag_id t = i) (st_tags s) = None \<Longrightarrow> updateTag i tagUpdates s = s"
  "find (\<lambda>l. link_id l = i) (st_links s) = None \<Longrightarrow> deleteLink i now s = s"
  "find (\<lambda>n. note_id n = i) (st_notes s) = None \<Longrightarrow> collectNote i s = s"
  "find (\<lambda>n. note_id n = i) (st_notes s) = None \<Longrightarrow> reviewNote i quality now a s = s"
  by (simp_all add: updateNote_def updateTag_def deleteLink_def collectNote_def reviewNote_def)

lemma storage_deleteNote_links:
  "list_all (\<lambda>l. sourceId l \<noteq> i \<and> targetId l \<noteq> i) (db_links (storage_deleteNote i d))"
  by (auto simp: storage_deleteNote_def Let_def delete_each_filter index_getAll_def list_all_iff)

lemma deleteNote_removes_links:
  "list_all (\<lambda>l. sourceId l \<noteq> i \<and> targetId l \<noteq> i) (st_links (deleteNote i s))"
  "list_all (\<lambda>l. sourceId l \<noteq> i \<and> targetId l \<noteq> i) (db_links (db (deleteNote i s)))"
  "find (\<lambda>n. note_id n = i) (st_notes (deleteNote i s)) = None"
  "storage_getNote i (db (deleteNote i s)) = None"
  "totalLinks (st_stats (deleteNote i s)) = totalLinks (st_stats s)"
  "totalNotes (st_stats (deleteNote i s)) = max 0 (totalNotes (st_stats s) - 1)"
  using storage_deleteNote_links [of i "db s"]
  by (simp_all add: deleteNote_def Let_def list_all_iff find_None_iff storage_getNote_def
      store_get_def storage_deleteNote_def store_delete_def)

subsection \<open>Search\<close>

text \<open>
  The test \<^verbatim>\<open>!query.trim()\<close> holds for the strings of white space; \<^verbatim>\<open>includes\<close> is the
  contiguous-sublist relation; \<^verbatim>\<open>split(' ')\<close> cuts at every space and nowhere else. The guard
  for the blank query is in the store: \<^verbatim>\<open>PKMStorage.searchNotes\<close> itself returns every note
  when the query has no term.
\<close>

lemma str_includes_sublist: "str_includes s t \<longleftrightarrow> sublist t s"
  by (induction s) (auto simp: sublist_Cons_right)

lemma dropWhile_Nil_iff: "dropWhile P xs = [] \<longleftrightarrow> list_all P xs"
  by (induction xs) auto

lemma list_all_dropWhile: "list_all P (dropWhile P xs) \<longleftrightarrow> list_all P xs"
  by (induction xs) auto

lemma trim_empty_iff: "trim s = [] \<longleftrightarrow> list_all isWhiteSpace s"
proof -
  have "trim s = [] \<longleftrightarrow> dropWhile isWhiteSpace (rev (dropWhile isWhiteSpace s)) = []"
    by (simp add: trim_def)
  also have "\<dots> \<longleftrightarrow> list_all isWhiteSpace (rev (dropWhile isWhiteSpace s))"
    by (rule dropWhile_Nil_iff)
  also have "\<dots> \<longleftrightarrow> list_all isWhiteSpace (dropWhile isWhiteSpace s)"
    by (simp add: list_all_iff)
  also have "\<dots> \<longleftrightarrow> list_all isWhiteSpace s"
    by (rule list_all_dropWhile)
  finally show ?thesis .
qed

lemma join_split_char: "join [sep] (split_char sep s) = s"
proof (induction s)
  case Nil
  then show ?case by simp
next
  case (Cons c s)
  then show ?case
    by (cases "split_char sep s"; cases "tl (split_char sep s)") (auto split: list.splits)
qed

lemma split_char_no_sep: "p \<in> set (split_char sep s) \<Longrightarrow> sep \<notin> set p"
  by (induction s arbitrary: p) (auto split: if_splits list.splits)

lemma searchTerms_empty_query: "searchTerms [] = []"
  by (simp add: searchTerms_def toLowerCase_def)

lemma storage_searchNotes_no_terms:
  "searchTerms query = [] \<Longrightarrow> storage_searchNotes query d = db_notes d"
  by (simp add: storage_searchNotes_def storage_getAllNotes_def)

subsection \<open>Snapshots\<close>

text \<open>
  The import of an export succeeds on a database whose keys are distinct, and stores
  the records as JSON gives them back: each \<^verbatim>\<open>Date\<close> as its string.
\<close>

lemma json_keys [simp]:
  "note_id (json_Note n) = note_id n"
  "link_id (json_NoteLink l) = link_id l"
  "tag_id (json_Tag t) = tag_id t"
  by (simp_all add: json_Note_def json_NoteLink_def json_Tag_def)

lemma toJSON_Date: "toJSON (Date t) \<noteq> Date t"
  by simp

lemma import_export:
  assumes "distinct (map note_id (db_notes d))"
    and "distinct (map link_id (db_links d))"
    and "distinct (map tag_id (db_tags d))"
  shows "storage_importData (storage_exportData now d) d' =
           (None,
            \<lparr>db_notes = map json_Note (db_notes d),
             db_links = map json_NoteLink (db_links d),
             db_tags = map json_Tag (db_tags d),
             db_stats = map_option json_PKMStats (db_stats d),
             db_settings = db_settings d\<rparr>)"
proof -
  have n: "add_each note_id (map json_Note (db_notes d)) [] = Inr (map json_Note (db_notes d))"
    using add_each_distinct [of note_id "[]" "map json_Note (db_notes d)"] assms(1)
    by (simp add: comp_def)
  have l: "add_each link_id (map json_NoteLink (db_links d)) [] = Inr (map json_NoteLink (db_links d))"
    using add_each_distinct [of link_id "[]" "map json_NoteLink (db_links d)"] assms(2)
    by (simp add: comp_def)
  have t: "add_each tag_id (map json_Tag (db_tags d)) [] = Inr (map json_Tag (db_tags d))"
    using add_each_distinct [of tag_id "[]" "map json_Tag (db_tags d)"] assms(3)
    by (simp add: comp_def)
  show ?thesis
    by (cases "db_stats d"; cases "db_settings d")
       (simp_all add: storage_importData_def storage_exportData_def clearAllData_def Let_def n l t
          storage_getAllNotes_def storage_getAllLinks_def storage_getAllTags_def
          storage_getStats_def storage_getSettings_def)
qed

subsection \<open>The example stores\<close>

text \<open>
  The example note is the note that \<^verbatim>\<open>createNote\<close> builds at instant 0 from a title and a
  content in the initial store.
\<close>

lemma example_note_created:
  assumes "t \<noteq> []"
  shows "createNote (no_updates\<lparr>u_title := Some t, u_content := Some c\<rparr>) i 0 0 0 a initialStore =
         Inr (initialStore
               \<lparr>st_notes := [example_note i t c],
                st_stats := defaultStats
                  \<lparr>totalNotes := 1,
                   recentActivity :=
                     [\<lparr>act_id = a, act_type = NoteCreated, act_timestamp = Date 0,
                       act_description = ''Created note: '' @ t, points = Some 10\<rparr>]\<rparr>,
                db := \<lparr>db_notes = [example_note i t c], db_links = [], db_tags = [],
                       db_stats = Some (defaultStats
                  \<lparr>totalNotes := 1,
                   recentActivity :=
                     [\<lparr>act_id = a, act_type = NoteCreated, act_timestamp = Date 0,
                       act_description = ''Created note: '' @ t, points = Some 10\<rparr>]\<rparr>),
                       db_settings = None\<rparr>\<rparr>)"
  using assms
  by (cases c)
     (simp_all add: createNote_def Let_def no_updates_def initialStore_def example_note_def
      defaultSettings_def defaultStats_def storage_createNote_def store_add_def store_has_def
      updateStats_def storage_updateStats_def spread_PKMStats_def all_of_stats_def
      INITIAL_INTERVAL_def)

section \<open>The claims\<close>

subsection \<open>C1: links and backlinks after \<^verbatim>\<open>createLink\<close>\<close>

text \<open>
  Claim C1 does not hold of the code. \<^verbatim>\<open>createLink\<close> hands the new list of links to
  \<^verbatim>\<open>updateNote\<close> inside \<open>updates.metadata\<close>, and \<^verbatim>\<open>updateNote\<close> rebuilds \<open>metadata\<close> from the
  stored note, so the lists never change (\<open>createLink_keeps_links\<close> and
  \<open>deleteLink_keeps_links\<close>, for every store). With two stored notes \<open>a\<close> and \<open>b\<close> that
  have no links, \<^verbatim>\<open>createLink(a, b, 'related')\<close> succeeds, stores the link and counts it, and
  leaves the links of \<open>a\<close> and the backlinks of \<open>b\<close> empty, in the state and in the
  database.
\<close>

theorem createLink_example:
  "(case createLink ''a'' ''b'' Related None ''l1'' 1 two_notes
    of Inl e \<Rightarrow> None
     | Inr s' \<Rightarrow>
         Some (map link_view (st_notes s'), map link_view (db_notes (db s')),
               map (\<lambda>l. (link_id l, sourceId l, targetId l)) (st_links s'),
               totalLinks (st_stats s')))
   = Some ([(''a'', [], []), (''b'', [], [])], [(''a'', [], []), (''b'', [], [])],
           [(''l1'', ''a'', ''b'')], 1)"
  by (simp add: createLink_def updateNote_def updatedNote_def spread_Note_def no_updates_def
      truthy_def link_view_def Let_def example_defs store_defs storage_defs)

subsection \<open>C2: the interval after an easy review\<close>

text \<open>
  Claim C2, as amended. A review of a stored note with quality \<open>Easy\<close> sets the ease factor
  to \<open>min 3 (e * 1.3)\<close> and the interval to \<open>\<lfloor>i * 1.3 * e\<rfloor>\<close>, where \<open>e\<close> and \<open>i\<close> are the ease
  factor and the interval before the review: the interval is computed from the old ease
  factor, not from the new one. The products are those of binary64: \<open>1.3\<close> is the double
  nearest to it, \<open>i * 1.3\<close> is rounded before it is multiplied by \<open>e\<close>, and the statement is
  for products within the range of the finite doubles.
\<close>

theorem easy_review_interval:
  assumes "find (\<lambda>n. note_id n = i) (st_notes s) = Some note"
    and "in_double_range (easeFactor (reviewData note) * round64 (13 / 10))"
    and "in_double_range (of_int (interval (reviewData note)) * round64 (13 / 10))"
    and "in_double_range
           (round64 (of_int (interval (reviewData note)) * round64 (13 / 10))
            * easeFactor (reviewData note))"
  shows "map_option (\<lambda>n. (easeFactor (reviewData n), interval (reviewData n)))
           (find (\<lambda>n. note_id n = i) (st_notes (reviewNote i Easy now a s))) =
         Some (min 3 (round64 (easeFactor (reviewData note) * round64 (13 / 10))),
               \<lfloor>round64 (round64 (of_int (interval (reviewData note)) * round64 (13 / 10))
                          * easeFactor (reviewData note))\<rfloor>)"
  by (simp add: reviewNote_find_same(1) [OF assms(1)] updatedReviewData_def newEaseFactor_def
      newInterval_def MAX_EASE_def EASY_MULTIPLIER_def SPACED_REPETITION_values(3) [unfolded MAX_EASE_def])

theorem easy_review_interval_witness:
  "find (\<lambda>n. note_id n = ''n1'') (st_notes reviewed_note) = Some (example_reviewed (25 / 10) 10)
   \<and> in_double_range (25 / 10 * round64 (13 / 10))
   \<and> in_double_range (of_int 10 * round64 (13 / 10))
   \<and> in_double_range (round64 (of_int 10 * round64 (13 / 10)) * (25 / 10))
   \<and> map_option (\<lambda>n. (easeFactor (reviewData n), interval (reviewData n)))
        (find (\<lambda>n. note_id n = ''n1'') (st_notes (reviewNote ''n1'' Easy 0 ''a1'' reviewed_note)))
      = Some (3, 32)"
proof -
  have f: "find (\<lambda>n. note_id n = ''n1'') (st_notes reviewed_note)
     = Some (example_reviewed (25 / 10) 10)"
    by (simp add: reviewed_note_def example_store_def example_reviewed_def example_note_def)
  have e: "easeFactor (reviewData (example_reviewed (25 / 10) 10)) = 25 / 10"
    and i: "interval (reviewData (example_reviewed (25 / 10) 10)) = 10"
    by (simp_all add: example_reviewed_def)
  have r1: "in_double_range (25 / 10 * round64 (13 / 10))"
    and r2: "in_double_range (of_int 10 * round64 (13 / 10))"
    and r3: "in_double_range (round64 (of_int 10 * round64 (13 / 10)) * (25 / 10))"
    by (rule in_double_range_small, code_simp)+
  have v: "(min 3 (round64 (25 / 10 * round64 (13 / 10))),
            \<lfloor>round64 (round64 (of_int 10 * round64 (13 / 10)) * (25 / 10))\<rfloor>) = (3, 32)"
    by code_simp
  have g: "map_option (\<lambda>n. (easeFactor (reviewData n), interval (reviewData n)))
        (find (\<lambda>n. note_id n = ''n1'') (st_notes (reviewNote ''n1'' Easy 0 ''a1'' reviewed_note)))
      = Some (3, 32)"
    using easy_review_interval [OF f, unfolded e i, OF r1 r2 r3, of 0 "''a1''"]
    unfolding v .
  show ?thesis
    by (intro conjI f r1 r2 r3 g)
qed

text \<open>
  The claim as stated fails: with ease factor 2.5 and interval 10 the new ease factor is
  3, the interval stored is 32, and the interval computed from the new ease factor would
  be 39.
\<close>

theorem easy_review_interval_counterexample:
  "map_option (\<lambda>n. (easeFactor (reviewData n), interval (reviewData n)))
     (find (\<lambda>n. note_id n = ''n1'') (st_notes (reviewNote ''n1'' Easy 0 ''a1'' reviewed_note)))
     = Some (3, 32)
   \<and> interval (reviewData (example_reviewed (25 / 10) 10)) = 10
   \<and> \<lfloor>round64 (round64 (of_int 10 * round64 (13 / 10)) * 3)\<rfloor> = 39"
proof -
  have f: "find (\<lambda>n. note_id n = ''n1'') (st_notes reviewed_note)
     = Some (example_reviewed (25 / 10) 10)"
    by (simp add: reviewed_note_def example_store_def example_reviewed_def example_note_def)
  have i: "interval (reviewData (example_reviewed (25 / 10) 10)) = 10"
    by (simp add: example_reviewed_def)
  have v: "(newEaseFactor Easy (reviewData (example_reviewed (25 / 10) 10)),
            newInterval Easy (reviewData (example_reviewed (25 / 10) 10))) = (3, 32)"
    by code_simp
  have w: "\<lfloor>round64 (round64 (of_int 10 * round64 (13 / 10)) * 3)\<rfloor> = (39 :: int)"
    by code_simp
  have "map_option (\<lambda>n. (easeFactor (reviewData n), interval (reviewData n)))
     (find (\<lambda>n. note_id n = ''n1'') (st_notes (reviewNote ''n1'' Easy 0 ''a1'' reviewed_note)))
     = Some (newEaseFactor Easy (reviewData (example_reviewed (25 / 10) 10)),
             newInterval Easy (reviewData (example_reviewed (25 / 10) 10)))"
    by (simp add: reviewNote_find_same(1) [OF f] updatedReviewData_def)
  then have g: "map_option (\<lambda>n. (easeFactor (reviewData n), interval (reviewData n)))
     (find (\<lambda>n. note_id n = ''n1'') (st_notes (reviewNote ''n1'' Easy 0 ''a1'' reviewed_note)))
     = Some (3, 32)"
    unfolding v .
  show ?thesis
    by (intro conjI g i w)
qed

subsection \<open>C3: the status after a review\<close>

text \<open>
  Claim C3, as amended. After a review of a stored note the status is \<open>Learning\<close> when the
  quality is \<open>Again\<close>; otherwise it is \<open>Mastered\<close> exactly when the review count before the
  review was at least 20, and \<open>Reviewing\<close> otherwise; the count goes up by one with every
  review, whatever its quality. So for a note with count 0, the review that follows \<open>k\<close>
  reviews of any qualities gives, when it is not \<open>Again\<close>, the status \<open>Mastered\<close> exactly
  when \<open>k \<ge> 20\<close>: a note first becomes mastered on its 21st review or later, counting the
  reviews with \<open>Again\<close>, not on its 21st successful review.
\<close>

theorem review_status:
  assumes "find (\<lambda>n. note_id n = i) (st_notes s) = Some note"
  shows "map_option (\<lambda>n. status (reviewData n))
           (find (\<lambda>n. note_id n = i) (st_notes (reviewNote i quality now a s))) =
         Some (if quality = Again then Learning
               else if 20 \<le> reviewCount (reviewData note) then Mastered
               else Reviewing)
       \<and> map_option (\<lambda>n. reviewCount (reviewData n))
           (find (\<lambda>n. note_id n = i) (st_notes (reviewNote i quality now a s))) =
         Some (reviewCount (reviewData note) + 1)
       \<and> (reviewCount (reviewData note) = 0 \<and> list_all (\<lambda>r. fst r = i) rs \<longrightarrow>
          map_option (\<lambda>n. status (reviewData n))
            (find (\<lambda>n. note_id n = i)
               (st_notes (reviewNotes (rs @ [(i, quality, now, a)]) s))) =
          Some (if quality = Again then Learning
                else if 20 \<le> length rs then Mastered
                else Reviewing))"
proof (intro conjI impI)
  show "map_option (\<lambda>n. status (reviewData n))
           (find (\<lambda>n. note_id n = i) (st_notes (reviewNote i quality now a s))) =
         Some (if quality = Again then Learning
               else if 20 \<le> reviewCount (reviewData note) then Mastered
               else Reviewing)"
    by (simp add: reviewNote_find_same(1) [OF assms] updatedReviewData_def newStatus_def)
  show "map_option (\<lambda>n. reviewCount (reviewData n))
           (find (\<lambda>n. note_id n = i) (st_notes (reviewNote i quality now a s))) =
         Some (reviewCount (reviewData note) + 1)"
    by (simp add: reviewNote_find_same(1) [OF assms] updatedReviewData_def)
next
  assume h: "reviewCount (reviewData note) = 0 \<and> list_all (\<lambda>r. fst r = i) rs"
  from reviewNotes_count [OF assms, of rs] h obtain nt' where
    n: "find (\<lambda>n. note_id n = i) (st_notes (reviewNotes rs s)) = Some nt'"
    and c: "reviewCount (reviewData nt') = int (length rs)"
    by auto
  show "map_option (\<lambda>n. status (reviewData n))
            (find (\<lambda>n. note_id n = i)
               (st_notes (reviewNotes (rs @ [(i, quality, now, a)]) s))) =
          Some (if quality = Again then Learning
                else if 20 \<le> length rs then Mastered
                else Reviewing)"
    using c
    by (simp add: reviewNotes_snoc reviewNote_find_same(1) [OF n] updatedReviewData_def
        newStatus_def)
qed

theorem review_status_witness:
  "find (\<lambda>n. note_id n = ''n1'') (st_notes one_note) = Some (example_note ''n1'' ''T'' ''c'')
   \<and> reviewCount (reviewData (example_note ''n1'' ''T'' ''c'')) = 0
   \<and> map_option (\<lambda>n. status (reviewData n))
        (find (\<lambda>n. note_id n = ''n1'') (st_notes (reviewNote ''n1'' Good 0 ''a1'' one_note)))
      = Some Reviewing
   \<and> map_option (\<lambda>n. status (reviewData n))
        (find (\<lambda>n. note_id n = ''n1'')
           (st_notes (reviewNotes
              (replicate 20 (''n1'', Hard, 0, ''a1'') @ [(''n1'', Good, 0, ''a1'')]) one_note)))
      = Some Mastered
   \<and> map_option (\<lambda>n. status (reviewData n))
        (find (\<lambda>n. note_id n = ''n1'')
           (st_notes (reviewNotes
              (replicate 19 (''n1'', Again, 0, ''a1'') @ [(''n1'', Good, 0, ''a1'')]) one_note)))
      = Some Reviewing"
proof -
  have f: "find (\<lambda>n. note_id n = ''n1'') (st_notes one_note)
     = Some (example_note ''n1'' ''T'' ''c'')"
    by (simp add: one_note_def example_store_def example_note_def)
  have c: "reviewCount (reviewData (example_note ''n1'' ''T'' ''c'')) = 0"
    by (simp add: example_note_def)
  show ?thesis
    using f c review_status [OF f, of Good 0 "''a1''" "replicate 20 (''n1'', Hard, 0, ''a1'')"]
      review_status [OF f, of Good 0 "''a1''" "replicate 19 (''n1'', Again, 0, ''a1'')"]
    by (simp add: list_all_iff)
qed

text \<open>
  The claim as stated, with the note first mastered on its 21st successful review and not
  on its 20th, fails, because the reviews with \<open>Again\<close> are counted too. A new note that is
  reviewed once with \<open>Again\<close> and then 20 times with \<open>Good\<close> is mastered after these 21
  reviews, with a streak of 20: on its 20th successful review. Reviewed 20 times with
  \<open>Again\<close> and then once with \<open>Good\<close>, it is mastered on its first successful review.
\<close>

theorem review_status_counterexample:
  "map_option
     (\<lambda>n. (status (reviewData n), reviewCount (reviewData n), correctStreak (reviewData n)))
     (find (\<lambda>n. note_id n = ''n1'')
        (st_notes (reviewNotes
           ((''n1'', Again, 0, ''a1'') # replicate 20 (''n1'', Good, 0, ''a1'')) one_note)))
     = Some (Mastered, 21, 20)
   \<and> map_option
     (\<lambda>n. (status (reviewData n), reviewCount (reviewData n), correctStreak (reviewData n)))
     (find (\<lambda>n. note_id n = ''n1'')
        (st_notes (reviewNotes
           (replicate 20 (''n1'', Again, 0, ''a1'') @ [(''n1'', Good, 0, ''a1'')]) one_note)))
     = Some (Mastered, 21, 1)"
proof -
  have f: "find (\<lambda>n. note_id n = ''n1'') (st_notes one_note)
     = Some (example_note ''n1'' ''T'' ''c'')"
    by (simp add: one_note_def example_store_def example_note_def)
  have c: "reviewCount (reviewData (example_note ''n1'' ''T'' ''c'')) = 0"
    "correctStreak (reviewData (example_note ''n1'' ''T'' ''c'')) = 0"
    by (simp_all add: example_note_def)
  let ?n1 = "(example_note ''n1'' ''T'' ''c'')
               \<lparr>updatedAt := Date 0,
                reviewData := updatedReviewData Again 0 (reviewData (example_note ''n1'' ''T'' ''c''))\<rparr>"
  have f1: "find (\<lambda>n. note_id n = ''n1'') (st_notes (reviewNote ''n1'' Again 0 ''a1'' one_note))
     = Some ?n1"
    by (rule reviewNote_find_same(1) [OF f])
  have a: "map_option
     (\<lambda>n. (status (reviewData n), reviewCount (reviewData n), correctStreak (reviewData n)))
     (find (\<lambda>n. note_id n = ''n1'')
        (st_notes (reviewNotes
           ((''n1'', Again, 0, ''a1'') # replicate 20 (''n1'', Good, 0, ''a1'')) one_note)))
     = Some (Mastered, 21, 20)"
    using reviewNotes_good_run [OF f1, of "replicate 20 (''n1'', Good, 0, ''a1'')"]
    by (simp add: c list_all_iff updatedReviewData_def)
  have "map_option
     (\<lambda>n. (status (reviewData n), reviewCount (reviewData n), correctStreak (reviewData n)))
     (find (\<lambda>n. note_id n = ''n1'')
        (st_notes (reviewNotes (replicate 20 (''n1'', Again, 0, ''a1'')) one_note)))
     = Some (Learning, 20, 0)"
    using reviewNotes_again_run [OF f, of "replicate 20 (''n1'', Again, 0, ''a1'')"]
    by (simp add: c list_all_iff)
  then obtain n20 where
    f20: "find (\<lambda>n. note_id n = ''n1'')
        (st_notes (reviewNotes (replicate 20 (''n1'', Again, 0, ''a1'')) one_note)) = Some n20"
    and c20: "reviewCount (reviewData n20) = 20" "correctStreak (reviewData n20) = 0"
    by auto
  have b: "map_option
     (\<lambda>n. (status (reviewData n), reviewCount (reviewData n), correctStreak (reviewData n)))
     (find (\<lambda>n. note_id n = ''n1'')
        (st_notes (reviewNotes
           (replicate 20 (''n1'', Again, 0, ''a1'') @ [(''n1'', Good, 0, ''a1'')]) one_note)))
     = Some (Mastered, 21, 1)"
    by (simp add: reviewNotes_snoc reviewNote_find_same(1) [OF f20] updatedReviewData_def
        newStatus_def c20)
  show ?thesis
    by (intro conjI a b)
qed

subsection \<open>C4: deleting a note and the link counter\<close>

text \<open>
  Claim C4 does not hold of the code. \<^verbatim>\<open>deleteNote\<close> removes the links from and to the
  note, in the state and in the database, and then writes back the statistics with only
  \<open>totalNotes\<close> changed (\<open>deleteNote_removes_links\<close>, for every store). With a note that
  has two outgoing links and a counter of 2, both links are gone after the deletion and
  \<open>totalLinks\<close> is still 2.
\<close>

theorem deleteNote_links_example:
  "map link_id (st_links (deleteNote ''a'' linked_notes)) = []
   \<and> map link_id (db_links (db (deleteNote ''a'' linked_notes))) = []
   \<and> totalLinks (st_stats linked_notes) = 2
   \<and> totalLinks (st_stats (deleteNote ''a'' linked_notes)) = 2
   \<and> map_option totalLinks (db_stats (db (deleteNote ''a'' linked_notes))) = Some 2"
  by (simp add: deleteNote_def Let_def example_defs store_defs storage_defs)

subsection \<open>C5: export followed by import\<close>

text \<open>
  Claim C5 does not hold of the code. The snapshot is written by \<^verbatim>\<open>JSON.stringify\<close> and read
  by \<^verbatim>\<open>JSON.parse\<close> without a reviver, so every \<^verbatim>\<open>Date\<close> of a record comes back as its
  ISO-8601 string (lemma \<open>import_export\<close> gives the database after the round trip in
  general). For a database with one note created at instant 0, the import of the export into
  the cleared database succeeds and restores the note with the strings in \<open>createdAt\<close> and
  \<open>nextReview\<close>, where the exported database holds \<^verbatim>\<open>Date\<close> objects.
\<close>

theorem import_export_example:
  "map (\<lambda>n. (note_id n, createdAt n, nextReview (reviewData n)))
     (db_notes (db alpha_note))
   = [(''a'', Date 0, Date 86400000)]
   \<and> fst (storage_importData
        (storage_exportData 5 (db alpha_note))
        (clearAllData (db alpha_note)))
     = None
   \<and> map (\<lambda>n. (note_id n, createdAt n, nextReview (reviewData n)))
       (db_notes (snd (storage_importData
          (storage_exportData 5 (db alpha_note))
          (clearAllData (db alpha_note)))))
     = [(''a'', IsoString 0, IsoString 86400000)]"
  by (simp add: storage_importData_def storage_exportData_def clearAllData_def Let_def
      storage_getAllNotes_def storage_getAllLinks_def storage_getAllTags_def
      storage_getStats_def storage_getSettings_def example_defs store_defs
      json_Note_def json_ReviewData_def json_PKMStats_def)

subsection \<open>C6: search\<close>

text \<open>
  Claim C6, as amended. \<^verbatim>\<open>searchNotes\<close> returns no note when the query is empty or consists
  of white space. Otherwise it returns exactly the stored notes whose searchable text (title,
  content and the tags joined by spaces, in lower case) contains every term as a contiguous
  piece, where the terms are the non-empty pieces of the lower-cased query between its
  space characters: the query is split at the space character only (the pieces joined by
  spaces give the query back, and no piece holds a space), not at other white space.
\<close>

theorem searchNotes_result:
  "(list_all isWhiteSpace query \<longrightarrow> searchResults (searchNotes query s) = [])
   \<and> (\<not> list_all isWhiteSpace query \<longrightarrow>
        searchResults (searchNotes query s) =
          filter (\<lambda>note. \<forall>t \<in> set (searchTerms query). sublist t (searchableText note))
            (db_notes (db s)))
   \<and> searchTerms query = filter (\<lambda>t. t \<noteq> []) (split_char (CHR '' '') (toLowerCase query))
   \<and> join '' '' (split_char (CHR '' '') (toLowerCase query)) = toLowerCase query
   \<and> (\<forall>p \<in> set (split_char (CHR '' '') (toLowerCase query)). CHR '' '' \<notin> set p)
   \<and> searchableText note
       = toLowerCase (title note @ '' '' @ content note @ '' '' @ join '' '' (tags note))"
  using join_split_char [of "CHR '' ''" "toLowerCase query"]
  by (auto simp: searchNotes_def trim_empty_iff storage_searchNotes_def storage_getAllNotes_def
      str_includes_sublist list_all_iff searchTerms_def searchableText_def split_char_no_sep
      intro: filter_cong)

theorem searchNotes_result_witness:
  "\<not> list_all isWhiteSpace ''quantum waves''
   \<and> list_all isWhiteSpace ''  ''
   \<and> searchResults (searchNotes ''  '' two_topics) = []
   \<and> searchResults (searchNotes ''quantum waves'' two_topics)
     = [example_note ''n1'' ''Quantum Mechanics'' ''particles and waves'']"
proof -
  let ?s = two_topics
  have a: "\<not> list_all isWhiteSpace ''quantum waves''"
    by (simp add: isWhiteSpace_def)
  have b: "list_all isWhiteSpace ''  ''"
    by (simp add: isWhiteSpace_def)
  have c: "searchResults (searchNotes ''  '' ?s) = []"
    using b searchNotes_result [of "''  ''" ?s] by blast
  have "searchResults (searchNotes ''quantum waves'' ?s) =
          filter (\<lambda>note. \<forall>t \<in> set (searchTerms ''quantum waves''). sublist t (searchableText note))
            (db_notes (db ?s))"
    using a searchNotes_result [of "''quantum waves''" ?s] by blast
  also have "\<dots> = [example_note ''n1'' ''Quantum Mechanics'' ''particles and waves'']"
    by (simp add: str_includes_sublist [symmetric] searchTerms_def searchableText_def
        toLowerCase_def toLowerChar_def example_defs char_of_def bit_Suc_0_iff)
  finally show ?thesis
    using a b c by blast
qed

text \<open>
  The claim as stated, with the query split at white space, fails for the query \<open>a\<close>,
  tab, \<open>b\<close> and a note with title \<open>a\<close> and content \<open>b\<close>: the code looks for the one
  term that holds the tab and returns nothing, and the search of the claim returns the note.
\<close>

theorem searchNotes_result_counterexample:
  "searchResults (searchNotes tab_query a_and_b) = []
   \<and> spec_search tab_query (db_notes (db a_and_b))
     = [example_note ''n1'' ''a'' ''b'']"
  by (simp add: searchNotes_def storage_searchNotes_def storage_getAllNotes_def searchTerms_def
      searchableText_def spec_search_def spec_searchTerms_def tab_query_def trim_def
      isWhiteSpace_def toLowerCase_def toLowerChar_def example_defs Let_def)

subsection \<open>C7: the ease factor stays within its bounds\<close>

text \<open>
  Claim C7. A stored note whose ease factor is 2.5 is still stored after any finite
  sequence of \<^verbatim>\<open>reviewNote\<close> calls (with any qualities, on this note or on others), and its
  ease factor lies between 1.3 and 3. When the database held the same note at the start,
  it holds the same note as the state at the end.
\<close>

theorem ease_factor_bounds:
  assumes "find (\<lambda>n. note_id n = i) (st_notes s) = Some note"
    and "easeFactor (reviewData note) = 25 / 10"
  shows "\<exists>note'. find (\<lambda>n. note_id n = i) (st_notes (reviewNotes rs s)) = Some note'
           \<and> 13 / 10 \<le> easeFactor (reviewData note')
           \<and> easeFactor (reviewData note') \<le> 3
           \<and> (storage_getNote i (db s) = Some note \<longrightarrow>
                storage_getNote i (db (reviewNotes rs s)) = Some note')"
proof -
  have "MIN_EASE \<le> easeFactor (reviewData note)" and "easeFactor (reviewData note) \<le> MAX_EASE"
    using assms(2) by (simp_all add: SPACED_REPETITION_values)
  from reviewNotes_ease [OF assms(1) this, of rs]
  obtain note' where n: "find (\<lambda>n. note_id n = i) (st_notes (reviewNotes rs s)) = Some note'"
    and m: "MIN_EASE \<le> easeFactor (reviewData note')" "easeFactor (reviewData note') \<le> MAX_EASE"
    by blast
  have b: "13 / 10 \<le> easeFactor (reviewData note')" "easeFactor (reviewData note') \<le> 3"
    using m by (simp_all add: SPACED_REPETITION_values)
  have "storage_getNote i (db (reviewNotes rs s)) = Some note'"
    if "storage_getNote i (db s) = Some note"
    using reviewNotes_getNote [OF assms(1) that, of rs] n by simp
  with n b show ?thesis
    by blast
qed

theorem ease_factor_bounds_witness:
  "find (\<lambda>n. note_id n = ''n1'') (st_notes one_note)
     = Some (example_note ''n1'' ''T'' ''c'')
   \<and> storage_getNote ''n1'' (db one_note)
     = Some (example_note ''n1'' ''T'' ''c'')
   \<and> easeFactor (reviewData (example_note ''n1'' ''T'' ''c'')) = 25 / 10
   \<and> (\<exists>note'. find (\<lambda>n. note_id n = ''n1'')
          (st_notes (reviewNotes
             [(''n1'', Easy, 1, ''a1''), (''n1'', Easy, 2, ''a2''), (''n1'', Again, 3, ''a3''),
              (''n1'', Hard, 4, ''a4''), (''n1'', Again, 5, ''a5''), (''n1'', Good, 6, ''a6'')] one_note)) = Some note'
         \<and> storage_getNote ''n1''
          (db (reviewNotes
             [(''n1'', Easy, 1, ''a1''), (''n1'', Easy, 2, ''a2''), (''n1'', Again, 3, ''a3''),
              (''n1'', Hard, 4, ''a4''), (''n1'', Again, 5, ''a5''), (''n1'', Good, 6, ''a6'')] one_note)) = Some note'
         \<and> 13 / 10 \<le> easeFactor (reviewData note')
         \<and> easeFactor (reviewData note') \<le> 3)"
proof -
  have f: "find (\<lambda>n. note_id n = ''n1'') (st_notes one_note)
     = Some (example_note ''n1'' ''T'' ''c'')"
    by (simp add: one_note_def example_store_def example_note_def)
  have g: "storage_getNote ''n1'' (db one_note)
     = Some (example_note ''n1'' ''T'' ''c'')"
    by (simp add: one_note_def example_store_def example_note_def storage_getNote_def store_get_def)
  have e: "easeFactor (reviewData (example_note ''n1'' ''T'' ''c'')) = 25 / 10"
    by (simp add: example_note_def SPACED_REPETITION_values)
  show ?thesis
    using f g e ease_factor_bounds [OF f e] by blast
qed

subsection \<open>C8: the word count after an update of the content\<close>

text \<open>
  Claim C8 does not hold of the code for the empty content. \<^verbatim>\<open>updateNote\<close> recomputes the
  word count under the test \<^verbatim>\<open>updates.content ?\<close>, which fails for the empty string (for
  a content that is not empty the count is recomputed, \<open>updateNote_wordCount\<close>, and a
  \<open>metadata\<close> of the caller is never used, \<open>updatedNote_ignores_metadata\<close>). A note with
  content \<open>hello world\<close> and word count 2, updated to the empty content, keeps the word
  count 2 (and the reading time 1), where the empty content has no word.
\<close>

theorem updateNote_empty_content_example:
  "map (\<lambda>n. (note_id n, content n, wordCount (metadata n), readingTime (metadata n)))
     (st_notes hello_world)
   = [(''a'', ''hello world'', 2, 1)]
   \<and> map (\<lambda>n. (note_id n, content n, wordCount (metadata n), readingTime (metadata n)))
     (st_notes (updateNote ''a'' (no_updates\<lparr>u_content := Some []\<rparr>) 1 hello_world))
   = [(''a'', [], 2, 1)]
   \<and> map (\<lambda>n. (note_id n, content n, wordCount (metadata n), readingTime (metadata n)))
     (db_notes (db (updateNote ''a'' (no_updates\<lparr>u_content := Some []\<rparr>) 1 hello_world)))
   = [(''a'', [], 2, 1)]
   \<and> countWords [] = 0"
  by (simp add: updateNote_def updatedNote_def spread_Note_def no_updates_def
      truthy_def Let_def example_defs store_defs storage_defs countWords_def
      estimateReadingTime_def isWhiteSpace_def ceiling_eq_iff)

subsection \<open>C9: operations on an id that is not stored\<close>

text \<open>
  Claim C9 does not hold of the code for \<^verbatim>\<open>deleteNote\<close>, which has no test for a missing
  note: on an id that no note has it still writes the statistics with
  \<open>totalNotes\<close> lowered by one. With two stored notes and \<open>totalNotes = 2\<close>, deleting the
  id \<open>zz\<close> leaves both notes and sets \<open>totalNotes\<close> to 1, so the store has changed. (The
  actions with a guard do return the store unchanged, see \<open>missing_id_noops\<close>.)
\<close>

theorem deleteNote_missing_example:
  "\<not> list_ex (\<lambda>n. note_id n = ''zz'') (st_notes two_notes)
   \<and> \<not> list_ex (\<lambda>n. note_id n = ''zz'') (db_notes (db two_notes))
   \<and> totalNotes (st_stats two_notes) = 2
   \<and> totalNotes (st_stats (deleteNote ''zz'' two_notes)) = 1
   \<and> map_option totalNotes (db_stats (db (deleteNote ''zz'' two_notes))) = Some 1
   \<and> st_notes (deleteNote ''zz'' two_notes) = st_notes two_notes
   \<and> db_notes (db (deleteNote ''zz'' two_notes)) = db_notes (db two_notes)
   \<and> deleteNote ''zz'' two_notes \<noteq> two_notes"
proof -
  have t: "totalNotes (st_stats (deleteNote ''zz'' two_notes)) = 1"
    by (simp add: deleteNote_def Let_def example_defs store_defs storage_defs)
  have u: "totalNotes (st_stats two_notes) = 2"
    by (simp add: example_defs)
  have "deleteNote ''zz'' two_notes \<noteq> two_notes"
  proof
    assume "deleteNote ''zz'' two_notes = two_notes"
    with t u show False by simp
  qed
  then show ?thesis
    by (simp add: deleteNote_def Let_def example_defs store_defs storage_defs)
qed

subsection \<open>C10: a note is collected once\<close>

text \<open>
  Claim C10. \<^verbatim>\<open>collectNote\<close> returns the store as it is when the id matches no note or
  when the note is already collected; otherwise it adds 1 to \<open>collectedNotes\<close> and 5 to
  \<open>wisdomPoints\<close> and marks the note collected. A second call changes nothing any more:
  \<^verbatim>\<open>collectNote\<close> is idempotent.
\<close>

theorem collectNote_once:
  "(find (\<lambda>n. note_id n = i) (st_notes s) = None \<longrightarrow> collectNote i s = s)
   \<and> (\<forall>n. find (\<lambda>n. note_id n = i) (st_notes s) = Some n \<and> isCollected n \<longrightarrow>
          collectNote i s = s)
   \<and> (\<forall>n. find (\<lambda>n. note_id n = i) (st_notes s) = Some n \<and> \<not> isCollected n \<longrightarrow>
          collectedNotes (st_stats (collectNote i s)) = collectedNotes (st_stats s) + 1
        \<and> wisdomPoints (st_stats (collectNote i s)) = wisdomPoints (st_stats s) + 5
        \<and> find (\<lambda>n. note_id n = i) (st_notes (collectNote i s))
            = Some (n\<lparr>isCollected := True\<rparr>))
   \<and> collectNote i (collectNote i s) = collectNote i s"
proof (intro conjI allI impI)
  show "collectNote i s = s" if "find (\<lambda>n. note_id n = i) (st_notes s) = None"
    using that by (simp add: collectNote_def)
  show "collectNote i s = s"
    if "find (\<lambda>n. note_id n = i) (st_notes s) = Some n \<and> isCollected n" for n
    using that by (simp add: collectNote_def)
  show "collectedNotes (st_stats (collectNote i s)) = collectedNotes (st_stats s) + 1"
    if "find (\<lambda>n. note_id n = i) (st_notes s) = Some n \<and> \<not> isCollected n" for n
    using that collectNote_first(3) by blast
  show "wisdomPoints (st_stats (collectNote i s)) = wisdomPoints (st_stats s) + 5"
    if "find (\<lambda>n. note_id n = i) (st_notes s) = Some n \<and> \<not> isCollected n" for n
    using that collectNote_first(4) by blast
  show "find (\<lambda>n. note_id n = i) (st_notes (collectNote i s)) = Some (n\<lparr>isCollected := True\<rparr>)"
    if "find (\<lambda>n. note_id n = i) (st_notes s) = Some n \<and> \<not> isCollected n" for n
    using that collectNote_first(1) by blast
  show "collectNote i (collectNote i s) = collectNote i s"
  proof (cases "find (\<lambda>n. note_id n = i) (st_notes s)")
    case None
    then show ?thesis by (simp add: collectNote_def)
  next
    case (Some n)
    show ?thesis
    proof (cases "isCollected n")
      case True
      then show ?thesis using Some by (simp add: collectNote_def)
    next
      case False
      have "find (\<lambda>n. note_id n = i) (st_notes (collectNote i s)) = Some (n\<lparr>isCollected := True\<rparr>)"
        using Some False by (rule collectNote_first(1))
      then show ?thesis
        by (simp add: collectNote_def [of i "collectNote i s"])
    qed
  qed
qed

theorem collectNote_once_witness:
  "find (\<lambda>n. note_id n = ''n1'') (st_notes one_note)
     = Some (example_note ''n1'' ''T'' ''c'')
   \<and> \<not> isCollected (example_note ''n1'' ''T'' ''c'')
   \<and> find (\<lambda>n. note_id n = ''n2'') (st_notes one_note)
     = None
   \<and> collectNote ''n2'' one_note
     = one_note
   \<and> collectedNotes (st_stats (collectNote ''n1'' one_note))
     = 1
   \<and> wisdomPoints (st_stats (collectNote ''n1'' one_note))
     = 5
   \<and> wisdomPoints (st_stats (collectNote ''n1''
        (collectNote ''n1'' one_note)))
     = 5"
proof -
  let ?s = "one_note"
  have f: "find (\<lambda>n. note_id n = ''n1'') (st_notes ?s) = Some (example_note ''n1'' ''T'' ''c'')"
    by (simp add: one_note_def example_store_def example_note_def)
  have c: "\<not> isCollected (example_note ''n1'' ''T'' ''c'')"
    by (simp add: example_note_def)
  have g: "find (\<lambda>n. note_id n = ''n2'') (st_notes ?s) = None"
    by (simp add: one_note_def example_store_def example_note_def)
  have z: "collectedNotes (st_stats ?s) = 0" "wisdomPoints (st_stats ?s) = 0"
    by (simp_all add: one_note_def example_store_def initialStore_def defaultStats_def)
  show ?thesis
    using f c g z collectNote_once [of "''n1''" ?s] collectNote_once [of "''n2''" ?s]
    by auto
qed

end
